theory Spec2Isabelle
  imports Main "HOL-Library.Word"
begin

section \<open>Errors\<close>

text \<open>
  The error values of \<^verbatim>\<open>task_hcs.go\<close>. The four \<^verbatim>\<open>errdefs\<close> sentinels are the ones the
  file returns; \<^verbatim>\<open>errors.Wrap\<close>/\<^verbatim>\<open>errors.Wrapf\<close> put a message around a cause, and the
  class of a wrapped error is the class of its cause (\<^verbatim>\<open>errdefs.IsFailedPrecondition\<close> and
  friends look through the wrapping). \<open>ErrExternal\<close> is any error produced by a collaborator
  (the exec's \<^verbatim>\<open>Kill\<close>, \<^verbatim>\<open>newRelay\<close>, the container engine, the file system).
  \<open>RuntimePanic\<close> stands for a Go run-time panic (nil dereference, index out of range): the
  call does not return normally.
  The messages are kept without the quotation marks the source puts around identifiers;
  no property below reads a message.
\<close>

datatype error =
    ErrFailedPrecondition
  | ErrAlreadyExists
  | ErrNotFound
  | ErrNotImplemented
  | ErrPending
  | ErrAlreadyStopped
  | ErrAlreadyClosed
  | ErrExternal string
  | RuntimePanic string
  | Wrap error string

primrec Cause :: "error \<Rightarrow> error" where
  "Cause ErrFailedPrecondition = ErrFailedPrecondition"
| "Cause ErrAlreadyExists = ErrAlreadyExists"
| "Cause ErrNotFound = ErrNotFound"
| "Cause ErrNotImplemented = ErrNotImplemented"
| "Cause ErrPending = ErrPending"
| "Cause ErrAlreadyStopped = ErrAlreadyStopped"
| "Cause ErrAlreadyClosed = ErrAlreadyClosed"
| "Cause (ErrExternal m) = ErrExternal m"
| "Cause (RuntimePanic m) = RuntimePanic m"
| "Cause (Wrap e m) = Cause e"

definition IsFailedPrecondition :: "error \<Rightarrow> bool" where
  "IsFailedPrecondition e = (Cause e = ErrFailedPrecondition)"

definition IsAlreadyExists :: "error \<Rightarrow> bool" where
  "IsAlreadyExists e = (Cause e = ErrAlreadyExists)"

definition IsNotFound :: "error \<Rightarrow> bool" where
  "IsNotFound e = (Cause e = ErrNotFound)"

definition IsNotImplemented :: "error \<Rightarrow> bool" where
  "IsNotImplemented e = (Cause e = ErrNotImplemented)"

text \<open>
  Modelled from the spec: \<^verbatim>\<open>hcs.IsPending\<close>, \<^verbatim>\<open>hcs.IsAlreadyStopped\<close> and
  \<^verbatim>\<open>hcs.IsAlreadyClosed\<close> (package \<^verbatim>\<open>internal/hcs\<close>, not among the sources) recognise the
  container engine's distinguished conditions \<open>pending\<close>, \<open>alreadyStopped\<close> and
  \<open>alreadyClosed\<close>.
\<close>

definition IsPending :: "error \<Rightarrow> bool" where
  "IsPending e = (Cause e = ErrPending)"

definition IsAlreadyStopped :: "error \<Rightarrow> bool" where
  "IsAlreadyStopped e = (Cause e = ErrAlreadyStopped)"

definition IsAlreadyClosed :: "error \<Rightarrow> bool" where
  "IsAlreadyClosed e = (Cause e = ErrAlreadyClosed)"

section \<open>Execs\<close>

datatype shimExecState = shimExecStateCreated | shimExecStateRunning | shimExecStateExited

type_synonym uint32 = "32 word"

text \<open>\<^verbatim>\<open>time.Time\<close>, as nanoseconds; \<^verbatim>\<open>time.Time{}\<close> is \<open>0\<close>.\<close>

type_synonym time = int

text \<open>The fields of \<^verbatim>\<open>task.StateResponse\<close> that the task reads.\<close>

record StateResponse =
  sr_ID :: string
  sr_Bundle :: string
  sr_Pid :: uint32
  sr_ExitStatus :: uint32
  sr_ExitedAt :: time

text \<open>
  A \<^verbatim>\<open>shimExec\<close> as the task sees it through the interface: what \<^verbatim>\<open>ID()\<close>, \<^verbatim>\<open>Pid()\<close>,
  \<^verbatim>\<open>State()\<close> and \<^verbatim>\<open>Status()\<close> return.
\<close>

record shimExec =
  ID :: string
  Pid :: int
  State :: shimExecState
  Status :: StateResponse

text \<open>
  \<^verbatim>\<open>Kill(ctx, signal)\<close> of an exec is implemented outside the sources (\<^verbatim>\<open>hcsExec\<close>): it is a
  parameter, returning the error (if any) and the exec as it is afterwards.
\<close>

type_synonym kill_fn = "shimExec \<Rightarrow> uint32 \<Rightarrow> error option \<times> shimExec"

text \<open>The test double's \<^verbatim>\<open>testShimExec.Kill\<close> and \<^verbatim>\<open>testShimExec.Status\<close>.\<close>

definition testShimExec_Kill :: kill_fn where
  "testShimExec_Kill tse signal = (None, tse\<lparr>State := shimExecStateExited\<rparr>)"

definition testShimExec_Status :: "string \<Rightarrow> int \<Rightarrow> StateResponse" where
  "testShimExec_Status i p =
     \<lparr>sr_ID = i, sr_Bundle = [], sr_Pid = word_of_int p, sr_ExitStatus = 255, sr_ExitedAt = 0\<rparr>"

text \<open>
  Modelled from the spec: \<^verbatim>\<open>newHcsExec\<close> (not among the sources) creates an exec in state
  Created (\<open>Exec created in state Created at CreateExec/task-creation time\<close>); its pid is
  not valid before it runs and its status carries no exit yet. The process specification
  and the io relay are kept inside the exec and are not visible through the interface.
\<close>

definition newHcsExec :: "string \<Rightarrow> string \<Rightarrow> string \<Rightarrow> shimExec" where
  "newHcsExec tid eid bundle =
     \<lparr>ID = eid, Pid = 0, State = shimExecStateCreated,
      Status = \<lparr>sr_ID = eid, sr_Bundle = bundle, sr_Pid = 0, sr_ExitStatus = 255,
                sr_ExitedAt = 0\<rparr>\<rparr>"

section \<open>Events\<close>

datatype topic = TaskCreateEventTopic | TaskExecAddedEventTopic | TaskDeleteEventTopic

record TaskIO =
  io_Stdin :: string
  io_Stdout :: string
  io_Stderr :: string
  io_Terminal :: bool

datatype event =
    TaskCreate string string "string list" TaskIO string uint32
      \<comment> \<open>ContainerID, Bundle, Rootfs, IO, Checkpoint, Pid\<close>
  | TaskExecAdded string string
      \<comment> \<open>ContainerID, ExecID\<close>
  | TaskDelete string string uint32 uint32 time
      \<comment> \<open>ContainerID, ID, Pid, ExitStatus, ExitedAt\<close>

section \<open>Slices, the runtime specification and the boundary options\<close>

text \<open>
  A Go slice is a pointer to its first element and a length; the elements live in the
  heap, which maps the pointer to the array from that element on. \<^verbatim>\<open>make\<close> allocates a
  fresh array of empty strings, \<^verbatim>\<open>copy\<close> writes the common prefix, and an index outside
  the length panics (the callers test the index before they read or write).
\<close>

record slice =
  sl_ptr :: nat
  sl_len :: nat

type_synonym heap = "string list list"

definition valid_slice :: "heap \<Rightarrow> slice \<Rightarrow> bool" where
  "valid_slice h sl = (sl_ptr sl < length h \<and> sl_len sl \<le> length (h ! sl_ptr sl))"

definition slice_elems :: "heap \<Rightarrow> slice \<Rightarrow> string list" where
  "slice_elems h sl = take (sl_len sl) (h ! sl_ptr sl)"

definition make_slice :: "heap \<Rightarrow> nat \<Rightarrow> heap \<times> slice" where
  "make_slice h n = (h @ [replicate n []], \<lparr>sl_ptr = length h, sl_len = n\<rparr>)"

definition copy_slice :: "heap \<Rightarrow> slice \<Rightarrow> slice \<Rightarrow> heap" where
  "copy_slice h dst src =
     (let n = min (sl_len dst) (sl_len src)
      in h[sl_ptr dst := take n (h ! sl_ptr src) @ drop n (h ! sl_ptr dst)])"

definition slice_set :: "heap \<Rightarrow> slice \<Rightarrow> nat \<Rightarrow> string \<Rightarrow> heap" where
  "slice_set h sl i v = h[sl_ptr sl := (h ! sl_ptr sl)[i := v]]"

text \<open>The parts of \<^verbatim>\<open>specs.Spec\<close> and \<^verbatim>\<open>task.CreateTaskRequest\<close> that the file reads.\<close>

record specs_Windows =
  LayerFolders :: slice
  Network :: "string option" \<comment> \<open>\<^verbatim>\<open>Network\<close> may be nil; else its \<^verbatim>\<open>NetworkNamespace\<close>\<close>

record specs_Spec =
  Annotations :: "(string \<times> string) list"
  Windows :: "specs_Windows option"

record CreateTaskRequest =
  creq_ID :: string
  creq_Bundle :: string
  creq_Rootfs :: "string list"
  creq_Stdin :: string
  creq_Stdout :: string
  creq_Stderr :: string
  creq_Terminal :: bool

datatype KubernetesContainerType =
  KubernetesContainerTypeNone | KubernetesContainerTypeContainer | KubernetesContainerTypeSandbox

record OptionsLCOW =
  lopts_ID :: string
  lopts_Owner :: string

record OptionsWCOW =
  wopts_ID :: string
  wopts_Owner :: string
  wopts_LayerFolders :: slice

datatype uvm_opts = IsOptionsLCOW OptionsLCOW | IsOptionsWCOW OptionsWCOW

text \<open>Which exec object a call reaches: the task's \<^verbatim>\<open>init\<close> field or a registry entry.\<close>

datatype exec_ref = InitExec | RegExec string

text \<open>
  Everything the code does to the outside is recorded, in order: events handed to the
  publisher, signals handed to an exec's \<^verbatim>\<open>Kill\<close>, and the calls to the boundary (the
  hosting VM), the container engine and the file system. \<open>CreateContainer\<close> carries the
  \<^verbatim>\<open>ID\<close>, \<^verbatim>\<open>Owner\<close>, \<^verbatim>\<open>HostingSystem\<close> and \<^verbatim>\<open>NetworkNamespace\<close> of its options.
\<close>

datatype effect =
    Publish topic event
  | SignalSent exec_ref uint32
  | InitWait
  | Shutdown
  | WaitTimeout int
  | Terminate
  | ReleaseResources
  | CloseContainer
  | HostClose
  | LogError string error
  | MkdirAll string
  | CreateLCOW OptionsLCOW
  | CreateWCOW OptionsWCOW
  | HostStart
  | CreateContainer string string "nat option" string
  | GoWaitForExit

section \<open>The task\<close>

text \<open>
  \<^verbatim>\<open>hcsTask\<close>. The container handle \<^verbatim>\<open>c\<close>, the resources \<^verbatim>\<open>cr\<close> and the hosting VM
  \<^verbatim>\<open>host\<close> are pointers that may be nil; the registry \<^verbatim>\<open>execs\<close> is a \<^verbatim>\<open>sync.Map\<close>, kept as an
  association list with distinct keys whose order is the order in which \<^verbatim>\<open>Range\<close> visits
  the entries (Go leaves that order open, so a property of the task holds for every
  order).
\<close>

record hcsTask =
  ht_id :: string
  ht_isWCOW :: bool
  ht_c :: "nat option"
  ht_cr :: "nat option"
  ht_init :: shimExec
  ht_ownsHost :: bool
  ht_host :: "nat option"
  ht_execs :: "(string \<times> shimExec) list"

text \<open>
  \<^verbatim>\<open>sync.Map\<close>: \<^verbatim>\<open>Load\<close>, \<^verbatim>\<open>Store\<close>, \<^verbatim>\<open>Delete\<close>, and \<^verbatim>\<open>Range\<close>, which calls \<open>f\<close> on each
  entry in turn and stops as soon as \<open>f\<close> returns false.
\<close>

definition execs_Load :: "(string \<times> shimExec) list \<Rightarrow> string \<Rightarrow> shimExec option" where
  "execs_Load m k = map_of m k"

definition execs_Store :: "(string \<times> shimExec) list \<Rightarrow> string \<Rightarrow> shimExec \<Rightarrow> (string \<times> shimExec) list" where
  "execs_Store m k v =
     (if k \<in> fst ` set m then map (\<lambda>(k', v'). if k' = k then (k', v) else (k', v')) m
      else m @ [(k, v)])"

definition execs_Delete :: "(string \<times> shimExec) list \<Rightarrow> string \<Rightarrow> (string \<times> shimExec) list" where
  "execs_Delete m k = filter (\<lambda>(k', v'). k' \<noteq> k) m"

fun execs_Range :: "(string \<times> shimExec) list \<Rightarrow> (string \<Rightarrow> shimExec \<Rightarrow> 's \<Rightarrow> bool \<times> 's) \<Rightarrow> 's \<Rightarrow> 's" where
  "execs_Range [] f s = s"
| "execs_Range ((k, v) # m) f s =
     (case f k v s of (continue, s') \<Rightarrow> if continue then execs_Range m f s' else s')"

definition GetExec :: "hcsTask \<Rightarrow> string \<Rightarrow> error + shimExec" where
  "GetExec ht eid =
     (if eid = [] then Inr (ht_init ht)
      else case execs_Load (ht_execs ht) eid of
             None \<Rightarrow> Inl (Wrap ErrNotFound (''exec: '' @ eid @ '' in task: '' @ ht_id ht @ '' not found''))
           | Some raw \<Rightarrow> Inr raw)"


section \<open>CreateExec\<close>

record ExecProcessRequest =
  req_ExecID :: string
  req_Stdin :: string
  req_Stdout :: string
  req_Stderr :: string
  req_Terminal :: bool

text \<open>
  \<^verbatim>\<open>newRelay\<close> is implemented outside the sources: it is a parameter that says whether
  opening the relay for the given stream addresses fails. The relay itself, the context
  and the process specification go into the new exec and nowhere else. The creation lock
  \<^verbatim>\<open>ecl\<close> makes the call one atomic step, which is what a function is.
\<close>

type_synonym relay_fn = "string \<Rightarrow> string \<Rightarrow> string \<Rightarrow> bool \<Rightarrow> error option"

definition CreateExec :: "relay_fn \<Rightarrow> hcsTask \<Rightarrow> ExecProcessRequest \<Rightarrow> error option \<times> hcsTask \<times> effect list" where
  "CreateExec newRelay ht req =
     (if execs_Load (ht_execs ht) (req_ExecID req) \<noteq> None \<or> req_ExecID req = [] then
        (Some (Wrap ErrAlreadyExists
                 (''exec: '' @ req_ExecID req @ '' in task: '' @ ht_id ht @ '' already exists'')),
         ht, [])
      else if State (ht_init ht) \<noteq> shimExecStateRunning then
        (Some (Wrap ErrFailedPrecondition
                 (''exec: in task: '' @ ht_id ht @ '' must be running to create additional execs'')),
         ht, [])
      else
        case newRelay (req_Stdin req) (req_Stdout req) (req_Stderr req) (req_Terminal req) of
          Some err \<Rightarrow> (Some err, ht, [])
        | None \<Rightarrow>
            let he = newHcsExec (ht_id ht) (req_ExecID req) (sr_Bundle (Status (ht_init ht)))
            in (None,
                ht\<lparr>ht_execs := execs_Store (ht_execs ht) (req_ExecID req) he\<rparr>,
                [Publish TaskExecAddedEventTopic (TaskExecAdded (ht_id ht) (req_ExecID req))]))"

section \<open>KillExec\<close>

text \<open>
  The \<^verbatim>\<open>errgroup.Group\<close> is the list of execs whose \<^verbatim>\<open>Kill\<close> has been handed to \<^verbatim>\<open>eg.Go\<close>.
  \<^verbatim>\<open>eg.Wait\<close> lets all of them finish and returns the first error. The goroutines run
  concurrently in the source; here they run in the order of their dispatch, which is one
  of the schedules and fixes which error is the first.
\<close>

definition kill_ref :: "kill_fn \<Rightarrow> uint32 \<Rightarrow> exec_ref \<Rightarrow> hcsTask \<Rightarrow> error option \<times> hcsTask" where
  "kill_ref K signal r ht =
     (case r of
        InitExec \<Rightarrow> (case K (ht_init ht) signal of (err, e') \<Rightarrow> (err, ht\<lparr>ht_init := e'\<rparr>))
      | RegExec k \<Rightarrow>
          (case execs_Load (ht_execs ht) k of
             None \<Rightarrow> (None, ht) \<comment> \<open>not reached: every dispatched exec was just read from the registry\<close>
           | Some e \<Rightarrow>
               (case K e signal of (err, e') \<Rightarrow> (err, ht\<lparr>ht_execs := execs_Store (ht_execs ht) k e'\<rparr>))))"

fun eg_Wait :: "kill_fn \<Rightarrow> uint32 \<Rightarrow> exec_ref list \<Rightarrow> hcsTask \<Rightarrow> error option \<times> hcsTask \<times> effect list" where
  "eg_Wait K signal [] ht = (None, ht, [])"
| "eg_Wait K signal (r # eg) ht =
     (case kill_ref K signal r ht of
        (err, ht') \<Rightarrow>
          (case eg_Wait K signal eg ht' of
             (err', ht'', tr) \<Rightarrow>
               ((case err of Some e \<Rightarrow> Some e | None \<Rightarrow> err'), ht'', SignalSent r signal # tr)))"

text \<open>
  The two callbacks handed to \<^verbatim>\<open>Range\<close>, with the values they return in the source:
  the kill-all callback adds the exec to the group and returns \<^verbatim>\<open>false\<close>; the check
  callback (the same in \<^verbatim>\<open>KillExec\<close> and \<^verbatim>\<open>DeleteExec\<close>) sets \<^verbatim>\<open>invalid\<close> and returns
  \<^verbatim>\<open>true\<close> on an exec that is not Exited, and returns \<^verbatim>\<open>false\<close> on one that is.
\<close>

definition kill_all_callback :: "string \<Rightarrow> shimExec \<Rightarrow> exec_ref list \<Rightarrow> bool \<times> exec_ref list" where
  "kill_all_callback key val eg = (False, eg @ [RegExec key])"

definition unexited_callback :: "string \<Rightarrow> shimExec \<Rightarrow> bool \<Rightarrow> bool \<times> bool" where
  "unexited_callback key ex invalid =
     (if State ex \<noteq> shimExecStateExited then (True, True) else (False, invalid))"

definition the_ref :: "string \<Rightarrow> exec_ref" where
  "the_ref eid = (if eid = [] then InitExec else RegExec eid)"

definition KillExec :: "kill_fn \<Rightarrow> hcsTask \<Rightarrow> string \<Rightarrow> uint32 \<Rightarrow> bool \<Rightarrow> error option \<times> hcsTask \<times> effect list" where
  "KillExec K ht eid signal all =
     (case GetExec ht eid of
        Inl err \<Rightarrow> (Some err, ht, [])
      | Inr e \<Rightarrow>
          if all \<and> eid \<noteq> [] then
            (Some (Wrap ErrFailedPrecondition (''cannot signal all for non-empty exec: '' @ eid)),
             ht, [])
          else if all then
            (let eg = execs_Range (ht_execs ht) kill_all_callback []
             in eg_Wait K signal (eg @ [the_ref eid]) ht)
          else if eid = [] then
            (let invalid = execs_Range (ht_execs ht) unexited_callback False
             in if invalid then
                  (Some (Wrap ErrFailedPrecondition
                           ''cannot signal init exec with un-exited additional exec's''),
                   ht, [])
                else eg_Wait K signal [the_ref eid] ht)
          else eg_Wait K signal [the_ref eid] ht)"

section \<open>DeleteExec\<close>

text \<open>
  Modelled from the spec: \<^verbatim>\<open>newExecInvalidStateError\<close> (not among the sources) builds the
  error for an operation on an exec in the wrong state, a precondition violation
  (\<open>requires the target exec to be in state Exited; otherwise precondition violation\<close>).
\<close>

definition newExecInvalidStateError :: "string \<Rightarrow> string \<Rightarrow> shimExecState \<Rightarrow> string \<Rightarrow> error" where
  "newExecInvalidStateError tid eid state op =
     Wrap ErrFailedPrecondition
       (''exec: '' @ eid @ '' in task: '' @ tid @ '' is in invalid state for '' @ op)"

text \<open>
  The result is the triple \<^verbatim>\<open>(int(status.Pid), status.ExitStatus, status.ExitedAt)\<close>, or
  the error (the source then returns zeros beside it).
\<close>

definition DeleteExec :: "hcsTask \<Rightarrow> string \<Rightarrow> (error + int \<times> uint32 \<times> time) \<times> hcsTask \<times> effect list" where
  "DeleteExec ht eid =
     (case GetExec ht eid of
        Inl err \<Rightarrow> (Inl err, ht, [])
      | Inr e \<Rightarrow>
          if eid = [] \<and> execs_Range (ht_execs ht) unexited_callback False then
            (Inl (Wrap ErrFailedPrecondition
                    ''cannot delete init exec with un-exited additional exec's''),
             ht, [])
          else if State e \<noteq> shimExecStateExited then
            (Inl (newExecInvalidStateError (ht_id ht) eid (State e) ''delete''), ht, [])
          else
            (let status = Status e;
                 ht' = (if eid \<noteq> [] then ht\<lparr>ht_execs := execs_Delete (ht_execs ht) eid\<rparr> else ht)
             in (Inr (uint (sr_Pid status), sr_ExitStatus status, sr_ExitedAt status),
                 ht',
                 [Publish TaskDeleteEventTopic
                    (TaskDelete (ht_id ht) eid (sr_Pid status) (sr_ExitStatus status)
                       (sr_ExitedAt status))])))"

section \<open>Pids\<close>

definition Pids :: "hcsTask \<Rightarrow> error + (int \<times> string) list" where
  "Pids ht = Inl ErrNotImplemented"

text \<open>
  The test double \<^verbatim>\<open>testShimTask\<close> and its \<^verbatim>\<open>Pids\<close>: the init pair first, then one pair
  per entry of its map (a Go map, walked in an open order: the list's).
\<close>

record testShimTask =
  tst_id :: string
  tst_exec :: shimExec
  tst_execs :: "(string \<times> shimExec) list"

definition testShimTask_Pids :: "testShimTask \<Rightarrow> error + (int \<times> string) list" where
  "testShimTask_Pids tst =
     Inr ((Pid (tst_exec tst), ID (tst_exec tst)) # map (\<lambda>(k, p). (Pid p, ID p)) (tst_execs tst))"


section \<open>The teardown sequence\<close>

text \<open>
  \<^verbatim>\<open>time.Duration\<close> counts nanoseconds. The answers of the container engine, of the
  resource releaser and of the hosting VM are parameters; \<^verbatim>\<open>WaitTimeout\<close> is asked at most
  once per duration.
\<close>

definition Second :: int where
  "Second = 1000000000"

definition Minute :: int where
  "Minute = 60 * Second"

definition shutdownTimeout :: int where
  "shutdownTimeout = Minute * 5"

definition terminateTimeout :: int where
  "terminateTimeout = Second * 30"

record hcs_env =
  Shutdown_res :: "error option"
  WaitTimeout_res :: "int \<Rightarrow> error option"
  Terminate_res :: "error option"
  ReleaseResources_res :: "error option"
  Close_res :: "error option"
  HostClose_res :: "error option"

definition log_if :: "string \<Rightarrow> error option \<Rightarrow> effect list" where
  "log_if msg r = (case r of None \<Rightarrow> [] | Some err \<Rightarrow> [LogError msg err])"

text \<open>Lines 422 to 453: \<^verbatim>\<open>Shutdown\<close>, and what follows when it returns an error.\<close>

definition stop_container :: "hcs_env \<Rightarrow> effect list" where
  "stop_container env =
     Shutdown #
     (case Shutdown_res env of
        None \<Rightarrow> []
      | Some err \<Rightarrow>
          (if \<not> IsPending err then [LogError ''failed to shutdown container'' err]
           else WaitTimeout shutdownTimeout #
                log_if ''failed to wait for container shutdown'' (WaitTimeout_res env shutdownTimeout))
          @ Terminate #
            (case Terminate_res env of
               None \<Rightarrow> []
             | Some err \<Rightarrow>
                 if IsAlreadyStopped err then []
                 else if \<not> IsPending err then [LogError ''failed to terminate container'' err]
                 else WaitTimeout terminateTimeout #
                      log_if ''failed to wait for container terminate''
                        (WaitTimeout_res env terminateTimeout)))"

text \<open>Lines 455 to 469: release the resources, close the container handle.\<close>

definition release_and_close :: "hcs_env \<Rightarrow> effect list" where
  "release_and_close env =
     ReleaseResources # log_if ''failed to release container resources'' (ReleaseResources_res env)
     @ CloseContainer #
       (case Close_res env of
          None \<Rightarrow> []
        | Some err \<Rightarrow> if \<not> IsAlreadyClosed err then [LogError ''failed to close container'' err] else [])"

text \<open>Lines 472 to 483: close the hosting VM.\<close>

definition close_host :: "hcs_env \<Rightarrow> hcsTask \<Rightarrow> effect list" where
  "close_host env ht =
     (if ht_ownsHost ht \<and> ht_host ht \<noteq> None
      then HostClose # log_if ''failed host vm shutdown'' (HostClose_res env)
      else [])"

definition waitForExit :: "hcs_env \<Rightarrow> hcsTask \<Rightarrow> effect list" where
  "waitForExit env ht =
     InitWait #
     (case ht_c ht of
        None \<Rightarrow> []
      | Some c \<Rightarrow> stop_container env @ release_and_close env)
     @ close_host env ht"

text \<open>The entries of a run that only log a failure.\<close>

fun is_LogError :: "effect \<Rightarrow> bool" where
  "is_LogError (LogError m e) = True"
| "is_LogError e = False"

text \<open>What can follow the shutdown within its stage: a wait, the terminate, a log.\<close>

fun stop_entry :: "effect \<Rightarrow> bool" where
  "stop_entry (WaitTimeout d) = True"
| "stop_entry Terminate = True"
| "stop_entry (LogError m e) = True"
| "stop_entry e = False"

section \<open>Task creation\<close>

text \<open>
  What the collaborators of the creation path answer: \<^verbatim>\<open>oci.GetSandboxTypeAndID\<close>,
  \<^verbatim>\<open>filepath.Base(os.Args[0])\<close>, the test \<^verbatim>\<open>osversion.Get().Build >= osversion.RS5\<close>,
  \<^verbatim>\<open>oci.IsIsolated\<close>, \<^verbatim>\<open>oci.SpecToUVMCreateOpts\<close>, \<^verbatim>\<open>uvm.CreateLCOW\<close>, \<^verbatim>\<open>uvm.CreateWCOW\<close>,
  \<^verbatim>\<open>filepath.Join\<close>, \<^verbatim>\<open>os.MkdirAll\<close>, the VM's \<^verbatim>\<open>Start\<close>, \<^verbatim>\<open>oci.IsWCOW\<close>,
  \<^verbatim>\<open>os.Executable\<close>, \<^verbatim>\<open>newRelay\<close> and \<^verbatim>\<open>hcsoci.CreateContainer\<close>. None of them
  writes to the arrays of the specification.
\<close>

record create_env =
  GetSandboxTypeAndID_res :: "error + KubernetesContainerType"
  Args0_Base :: string
  Build_ge_RS5 :: bool
  IsIsolated :: bool
  SpecToUVMCreateOpts_res :: "error + uvm_opts"
  CreateLCOW_res :: "error + nat"
  CreateWCOW_res :: "error + nat"
  filepath_Join :: "string \<Rightarrow> string \<Rightarrow> string"
  MkdirAll_res :: "string \<Rightarrow> error option"
  Start_res :: "error option"
  IsWCOW :: bool
  Executable_res :: "error + string"
  newRelay_res :: relay_fn
  CreateContainer_res :: "error + nat \<times> nat"

definition newHcsTask :: "create_env \<Rightarrow> nat option \<Rightarrow> bool \<Rightarrow> CreateTaskRequest \<Rightarrow> specs_Spec \<Rightarrow> (error + hcsTask) \<times> effect list" where
  "newHcsTask env parent ownsParent req s =
     (case Executable_res env of
        Inl err \<Rightarrow> (Inl err, [])
      | Inr owner \<Rightarrow>
          (case newRelay_res env (creq_Stdin req) (creq_Stdout req) (creq_Stderr req) (creq_Terminal req) of
             Some err \<Rightarrow> (Inl err, [])
           | None \<Rightarrow>
               (let netNS = (case Windows s of
                               None \<Rightarrow> []
                             | Some w \<Rightarrow> (case Network w of None \<Rightarrow> [] | Some ns \<Rightarrow> ns));
                    create = CreateContainer (creq_ID req) owner parent netNS
                in case CreateContainer_res env of
                     Inl err \<Rightarrow> (Inl err, [create])
                   | Inr (system, resources) \<Rightarrow>
                       (let ht = \<lparr>ht_id = creq_ID req, ht_isWCOW = IsWCOW env, ht_c = Some system,
                                  ht_cr = Some resources,
                                  ht_init = newHcsExec (creq_ID req) (creq_ID req) (creq_Bundle req),
                                  ht_ownsHost = ownsParent, ht_host = parent, ht_execs = []\<rparr>
                        in (Inr ht,
                            [create, GoWaitForExit,
                             Publish TaskCreateEventTopic
                               (TaskCreate (creq_ID req) (creq_Bundle req) (creq_Rootfs req)
                                  \<lparr>io_Stdin = creq_Stdin req, io_Stdout = creq_Stdout req,
                                   io_Stderr = creq_Stderr req, io_Terminal = creq_Terminal req\<rparr>
                                  [] (word_of_int (Pid (ht_init ht))))])))))"

text \<open>
  Lines 52 to 81, the \<^verbatim>\<open>switch\<close> on the kind of options: the hosting VM that was created,
  or the error that ends the creation. \<^verbatim>\<open>oci.SpecToUVMCreateOpts\<close> returns one of the two
  kinds of options.
\<close>

definition create_parent :: "create_env \<Rightarrow> heap \<Rightarrow> specs_Spec \<Rightarrow> uvm_opts \<Rightarrow> (error + nat) \<times> heap \<times> effect list" where
  "create_parent env h s opts =
     (case opts of
        IsOptionsLCOW lopts \<Rightarrow> (CreateLCOW_res env, h, [CreateLCOW lopts])
      | IsOptionsWCOW wopts \<Rightarrow>
          (case Windows s of
             None \<Rightarrow> (Inl (RuntimePanic ''nil pointer dereference''), h, [])
           | Some w \<Rightarrow>
               (let layersLen = sl_len (LayerFolders w);
                    (h1, layers) = make_slice h layersLen;
                    h2 = copy_slice h1 layers (LayerFolders w)
                in if layersLen = 0 then (Inl (RuntimePanic ''index out of range''), h2, [])
                   else
                     (let vmPath = filepath_Join env (slice_elems h2 layers ! (layersLen - 1)) ''vm''
                      in case MkdirAll_res env vmPath of
                           Some err \<Rightarrow> (Inl err, h2, [MkdirAll vmPath])
                         | None \<Rightarrow>
                             (let h3 = slice_set h2 layers (layersLen - 1) vmPath;
                                  wopts' = wopts\<lparr>wopts_LayerFolders := layers\<rparr>
                              in (CreateWCOW_res env, h3, [MkdirAll vmPath, CreateWCOW wopts']))))))"

text \<open>Lines 90 to 97: create the task, and close the hosting VM if that fails.\<close>

definition create_shim :: "create_env \<Rightarrow> nat option \<Rightarrow> CreateTaskRequest \<Rightarrow> specs_Spec \<Rightarrow> (error + hcsTask) \<times> effect list" where
  "create_shim env parent req s =
     (case newHcsTask env parent True req s of
        (Inl err, tr) \<Rightarrow> (Inl err, tr @ (if parent \<noteq> None then [HostClose] else []))
      | (Inr shim, tr) \<Rightarrow> (Inr shim, tr))"

definition newHcsStandaloneTask :: "create_env \<Rightarrow> heap \<Rightarrow> CreateTaskRequest \<Rightarrow> specs_Spec \<Rightarrow> (error + hcsTask) \<times> heap \<times> effect list" where
  "newHcsStandaloneTask env h req s =
     (case GetSandboxTypeAndID_res env of
        Inl err \<Rightarrow> (Inl err, h, [])
      | Inr ct \<Rightarrow>
          if ct \<noteq> KubernetesContainerTypeNone then
            (Inl (Wrap ErrFailedPrecondition ''cannot create standalone task, expected no annotation''),
             h, [])
          else if Build_ge_RS5 env \<and> IsIsolated env then
            (case SpecToUVMCreateOpts_res env of
               Inl err \<Rightarrow> (Inl err, h, [])
             | Inr opts \<Rightarrow>
                 (case create_parent env h s opts of
                    (Inl err, h', tr) \<Rightarrow> (Inl err, h', tr)
                  | (Inr parent, h', tr) \<Rightarrow>
                      (let started = tr @ HostStart # (if Start_res env \<noteq> None then [HostClose] else [])
                       in case create_shim env (Some parent) req s of
                            (r, tr') \<Rightarrow> (r, h', started @ tr'))))
          else if \<not> IsWCOW env then
            (Inl (Wrap ErrFailedPrecondition ''oci spec does not contain WCOW or LCOW spec''), h, [])
          else
            (case create_shim env None req s of (r, tr') \<Rightarrow> (r, h, tr')))"


section \<open>Concrete tasks and environments\<close>

text \<open>
  The test double's exec \<^verbatim>\<open>testShimExec{id, pid, state}\<close>, and a task \<open>t1\<close> with init
  pid 100 around a given registry.
\<close>

definition testShimExec :: "string \<Rightarrow> int \<Rightarrow> shimExecState \<Rightarrow> shimExec" where
  "testShimExec i p st = \<lparr>ID = i, Pid = p, State = st, Status = testShimExec_Status i p\<rparr>"

definition example_task :: "shimExecState \<Rightarrow> (string \<times> shimExec) list \<Rightarrow> hcsTask" where
  "example_task st es =
     \<lparr>ht_id = ''t1'', ht_isWCOW = True, ht_c = Some 0, ht_cr = Some 0,
      ht_init = testShimExec ''t1'' 100 st, ht_ownsHost = True, ht_host = None, ht_execs = es\<rparr>"

definition example_exec_req :: "string \<Rightarrow> ExecProcessRequest" where
  "example_exec_req eid =
     \<lparr>req_ExecID = eid, req_Stdin = [], req_Stdout = [], req_Stderr = [], req_Terminal = False\<rparr>"

definition relay_ok :: relay_fn where
  "relay_ok i out err t = None"

definition relay_fails :: relay_fn where
  "relay_fails i out err t = Some (ErrExternal ''relay'')"

text \<open>A task whose init exec has exited, for the teardown sequence.\<close>

definition teardown_task :: "nat option \<Rightarrow> bool \<Rightarrow> nat option \<Rightarrow> hcsTask" where
  "teardown_task c owns host =
     \<lparr>ht_id = ''t1'', ht_isWCOW = True, ht_c = c, ht_cr = c,
      ht_init = testShimExec ''t1'' 100 shimExecStateExited,
      ht_ownsHost = owns, ht_host = host, ht_execs = []\<rparr>"

definition example_hcs_env :: "error option \<Rightarrow> error option \<Rightarrow> hcs_env" where
  "example_hcs_env sd tm =
     \<lparr>Shutdown_res = sd, WaitTimeout_res = (\<lambda>d. None), Terminate_res = tm,
      ReleaseResources_res = None, Close_res = None, HostClose_res = None\<rparr>"

text \<open>
  A creation request for \<open>t1\<close> on a host that isolates, with a specification whose two
  layer folders live in array 0 of the heap.
\<close>

definition example_req :: CreateTaskRequest where
  "example_req =
     \<lparr>creq_ID = ''t1'', creq_Bundle = ''b'', creq_Rootfs = [], creq_Stdin = [], creq_Stdout = [],
      creq_Stderr = [], creq_Terminal = False\<rparr>"

definition example_lopts :: OptionsLCOW where
  "example_lopts = \<lparr>lopts_ID = ''t1@vm'', lopts_Owner = ''shim''\<rparr>"

definition example_wopts :: OptionsWCOW where
  "example_wopts =
     \<lparr>wopts_ID = ''t1@vm'', wopts_Owner = ''shim'', wopts_LayerFolders = \<lparr>sl_ptr = 0, sl_len = 2\<rparr>\<rparr>"

definition example_create_env :: "uvm_opts \<Rightarrow> error option \<Rightarrow> error option \<Rightarrow> create_env" where
  "example_create_env opts mk st =
     \<lparr>GetSandboxTypeAndID_res = Inr KubernetesContainerTypeNone,
      Args0_Base = ''shim'',
      Build_ge_RS5 = True,
      IsIsolated = True,
      SpecToUVMCreateOpts_res = Inr opts,
      CreateLCOW_res = Inr 7,
      CreateWCOW_res = Inr 8,
      filepath_Join = (\<lambda>a b. a @ ''/'' @ b),
      MkdirAll_res = (\<lambda>p. mk),
      Start_res = st,
      IsWCOW = True,
      Executable_res = Inr ''shim.exe'',
      newRelay_res = relay_ok,
      CreateContainer_res = Inr (1, 2)\<rparr>"

text \<open>
  The task that \<^verbatim>\<open>newHcsTask\<close> builds for \<open>example_req\<close> in the hosting VM \<open>host\<close>
  (none for a process-isolated container) when every collaborator succeeds.
\<close>

definition built_task :: "nat option \<Rightarrow> hcsTask" where
  "built_task host =
     \<lparr>ht_id = ''t1'', ht_isWCOW = True, ht_c = Some 1, ht_cr = Some 2,
      ht_init = newHcsExec ''t1'' ''t1'' ''b'',
      ht_ownsHost = True, ht_host = host, ht_execs = []\<rparr>"

definition example_layers :: slice where
  "example_layers = \<lparr>sl_ptr = 0, sl_len = 2\<rparr>"

definition example_windows :: specs_Windows where
  "example_windows = \<lparr>LayerFolders = example_layers, Network = None\<rparr>"

definition example_spec :: specs_Spec where
  "example_spec = \<lparr>Annotations = [], Windows = Some example_windows\<rparr>"

definition example_heap :: heap where
  "example_heap = [[''base'', ''scratch'']]"

section \<open>The registry\<close>

lemma Load_Delete_same: "execs_Load (execs_Delete m k) k = None"
  by (induction m) (auto simp: execs_Load_def execs_Delete_def)

lemma Load_Delete_other: "k' \<noteq> k \<Longrightarrow> execs_Load (execs_Delete m k) k' = execs_Load m k'"
  by (induction m) (auto simp: execs_Load_def execs_Delete_def)

text \<open>
  What the two walks over the registry compute. The kill-all callback returns false on
  the first entry, which ends the walk there: the group holds the first entry only. The
  check callback goes on past an entry that has not exited and ends the walk on one that
  has: the flag is the state of the first entry.
\<close>

lemma Range_kill_all:
  "execs_Range m kill_all_callback eg = (case m of [] \<Rightarrow> eg | (k, v) # m' \<Rightarrow> eg @ [RegExec k])"
  by (cases m) (auto simp: kill_all_callback_def)

lemma Range_unexited_True: "execs_Range m unexited_callback True = True"
  by (induction m) (auto simp: unexited_callback_def)

lemma Range_unexited:
  "execs_Range m unexited_callback False =
     (case m of [] \<Rightarrow> False | (k, v) # m' \<Rightarrow> State v \<noteq> shimExecStateExited)"
  by (cases m) (auto simp: unexited_callback_def Range_unexited_True)

lemma Range_unexited_all_Exited:
  "\<forall>(k, v) \<in> set m. State v = shimExecStateExited \<Longrightarrow> \<not> execs_Range m unexited_callback False"
  by (cases m) (auto simp: Range_unexited)

lemma eg_Wait_trace: "snd (snd (eg_Wait K signal eg ht)) = map (\<lambda>r. SignalSent r signal) eg"
proof (induction eg arbitrary: ht)
  case Nil
  show ?case by simp
next
  case (Cons r eg)
  obtain err ht' where k: "kill_ref K signal r ht = (err, ht')"
    by (cases "kill_ref K signal r ht")
  obtain err' ht'' tr where w: "eg_Wait K signal eg ht' = (err', ht'', tr)"
    by (cases "eg_Wait K signal eg ht'")
  have "tr = map (\<lambda>r. SignalSent r signal) eg"
    using Cons.IH [of ht'] w by simp
  then show ?case using k w by simp
qed

section \<open>KillExec with all set\<close>

text \<open>
  For any registry and any behaviour of \<^verbatim>\<open>Kill\<close>, a kill-all reaches the entry the walk
  visits first and the init exec, and no other exec.
\<close>

lemma KillExec_all_trace:
  "snd (snd (KillExec K ht [] signal True)) =
     (case ht_execs ht of
        [] \<Rightarrow> [SignalSent InitExec signal]
      | (k, v) # m \<Rightarrow> [SignalSent (RegExec k) signal, SignalSent InitExec signal])"
  by (simp add: KillExec_def GetExec_def Range_kill_all eg_Wait_trace the_ref_def
      split: list.splits prod.splits)

text \<open>
  Claim C1 (KillExec with all == true and eid == "" dispatches the signal to every exec
  in the registry and to the init exec, and returns the first error). The code at a
  registry of two running execs \<open>e1\<close> and \<open>e2\<close>, signal 9: \<open>e1\<close> and the init exec
  receive the signal, \<open>e2\<close> receives none and is still Running, and the call returns
  no error.
\<close>

theorem KillExec_all_reaches_first_exec_only:
  "KillExec testShimExec_Kill
     (example_task shimExecStateRunning
        [(''e1'', testShimExec ''e1'' 101 shimExecStateRunning),
         (''e2'', testShimExec ''e2'' 102 shimExecStateRunning)])
     [] 9 True
   = (None,
      example_task shimExecStateExited
        [(''e1'', testShimExec ''e1'' 101 shimExecStateExited),
         (''e2'', testShimExec ''e2'' 102 shimExecStateRunning)],
      [SignalSent (RegExec ''e1'') 9, SignalSent InitExec 9])"
  by (simp add: KillExec_def GetExec_def example_task_def testShimExec_def kill_all_callback_def
      the_ref_def kill_ref_def execs_Load_def execs_Store_def testShimExec_Kill_def)

section \<open>The check before the init exec is killed or deleted\<close>

text \<open>
  Claim C2 (with an exec in the registry that has not exited, KillExec(eid="", all=false)
  and DeleteExec(eid="") fail with a precondition violation). The code at a registry
  whose first entry \<open>e1\<close> has exited and whose second entry \<open>e2\<close> is Running: the kill
  is delivered to the init exec, and the delete of the exited init exec succeeds and
  publishes its event.
\<close>

theorem init_check_passes_with_running_exec:
  "KillExec testShimExec_Kill
     (example_task shimExecStateRunning
        [(''e1'', testShimExec ''e1'' 101 shimExecStateExited),
         (''e2'', testShimExec ''e2'' 102 shimExecStateRunning)])
     [] 15 False
   = (None,
      example_task shimExecStateExited
        [(''e1'', testShimExec ''e1'' 101 shimExecStateExited),
         (''e2'', testShimExec ''e2'' 102 shimExecStateRunning)],
      [SignalSent InitExec 15])
   \<and> DeleteExec
       (example_task shimExecStateExited
          [(''e1'', testShimExec ''e1'' 101 shimExecStateExited),
           (''e2'', testShimExec ''e2'' 102 shimExecStateRunning)])
       []
     = (Inr (100, 255, 0),
        example_task shimExecStateExited
          [(''e1'', testShimExec ''e1'' 101 shimExecStateExited),
           (''e2'', testShimExec ''e2'' 102 shimExecStateRunning)],
        [Publish TaskDeleteEventTopic (TaskDelete ''t1'' [] 100 255 0)])"
  by (simp add: KillExec_def DeleteExec_def GetExec_def example_task_def testShimExec_def
      unexited_callback_def the_ref_def kill_ref_def execs_Load_def execs_Store_def
      testShimExec_Kill_def testShimExec_Status_def)

text \<open>
  The other direction of the check holds: with every entry exited (or none at all) it
  lets the call through, and with an un-exited entry visited first it refuses, leaving
  the task as it is.
\<close>

lemma KillExec_init_refused:
  "ht_execs ht = (k, v) # m \<Longrightarrow> State v \<noteq> shimExecStateExited \<Longrightarrow>
   \<exists>err. KillExec K ht [] signal False = (Some err, ht, []) \<and> IsFailedPrecondition err"
  by (simp add: KillExec_def GetExec_def Range_unexited IsFailedPrecondition_def)

lemma KillExec_init_allowed:
  "\<forall>(k, v) \<in> set (ht_execs ht). State v = shimExecStateExited \<Longrightarrow>
   KillExec K ht [] signal False = eg_Wait K signal [InitExec] ht"
  by (simp add: KillExec_def GetExec_def Range_unexited_all_Exited the_ref_def)

section \<open>Pids\<close>

text \<open>
  Claim C4 (Pids succeeds and returns the init pair and one pair per exec of the
  registry). The code at the task with init pid 100 and the execs \<open>e1\<close> (pid 101) and
  \<open>e2\<close> (pid 102): the call returns the not-implemented error and no pair.
\<close>

theorem Pids_not_implemented:
  "Pids (example_task shimExecStateRunning
           [(''e1'', testShimExec ''e1'' 101 shimExecStateRunning),
            (''e2'', testShimExec ''e2'' 102 shimExecStateRunning)])
   = Inl ErrNotImplemented
   \<and> IsNotImplemented ErrNotImplemented"
  by (simp add: Pids_def IsNotImplemented_def)

text \<open>The test double's \<^verbatim>\<open>Pids\<close> does return those pairs, whatever its map holds.\<close>

lemma testShimTask_Pids_pairs:
  "\<exists>ps. testShimTask_Pids tst = Inr ps
        \<and> set ps = insert (Pid (tst_exec tst), ID (tst_exec tst))
                      ((\<lambda>(k, p). (Pid p, ID p)) ` set (tst_execs tst))
        \<and> length ps = Suc (length (tst_execs tst))"
  by (simp add: testShimTask_Pids_def)

section \<open>CreateExec: the failure paths\<close>

text \<open>
  Claim C5. For every CreateExec call: an empty or duplicate exec identifier yields an
  already-exists error; an identifier that is neither, while the init exec is not
  Running, yields a precondition violation; and on every path that returns an error
  (these two and a failing relay) the task, its registry included, is unchanged and no
  event is published.
\<close>

theorem CreateExec_failure_paths:
  "(req_ExecID req = [] \<or> execs_Load (ht_execs ht) (req_ExecID req) \<noteq> None \<longrightarrow>
      (\<exists>err. CreateExec newRelay ht req = (Some err, ht, []) \<and> IsAlreadyExists err))
   \<and> (req_ExecID req \<noteq> [] \<and> execs_Load (ht_execs ht) (req_ExecID req) = None
        \<and> State (ht_init ht) \<noteq> shimExecStateRunning \<longrightarrow>
      (\<exists>err. CreateExec newRelay ht req = (Some err, ht, []) \<and> IsFailedPrecondition err))
   \<and> (\<forall>err ht' tr. CreateExec newRelay ht req = (Some err, ht', tr) \<longrightarrow> ht' = ht \<and> tr = [])"
  by (auto simp: CreateExec_def IsAlreadyExists_def IsFailedPrecondition_def Let_def
      split: option.splits)

theorem CreateExec_failure_paths_witness:
  "(\<exists>err. CreateExec relay_ok (example_task shimExecStateRunning []) (example_exec_req [])
            = (Some err, example_task shimExecStateRunning [], [])
          \<and> IsAlreadyExists err)
   \<and> (\<exists>err. CreateExec relay_ok
              (example_task shimExecStateRunning [(''e1'', testShimExec ''e1'' 101 shimExecStateRunning)])
              (example_exec_req ''e1'')
            = (Some err,
               example_task shimExecStateRunning [(''e1'', testShimExec ''e1'' 101 shimExecStateRunning)],
               [])
          \<and> IsAlreadyExists err)
   \<and> (\<exists>err. CreateExec relay_ok (example_task shimExecStateCreated []) (example_exec_req ''e1'')
            = (Some err, example_task shimExecStateCreated [], [])
          \<and> IsFailedPrecondition err)
   \<and> CreateExec relay_fails (example_task shimExecStateRunning []) (example_exec_req ''e1'')
       = (Some (ErrExternal ''relay''), example_task shimExecStateRunning [], [])"
proof -
  let ?run = "example_task shimExecStateRunning []"
  let ?dup = "example_task shimExecStateRunning [(''e1'', testShimExec ''e1'' 101 shimExecStateRunning)]"
  let ?new = "example_task shimExecStateCreated []"
  have 1: "\<exists>err. CreateExec relay_ok ?run (example_exec_req []) = (Some err, ?run, [])
               \<and> IsAlreadyExists err"
    using CreateExec_failure_paths [of "example_exec_req []" ?run relay_ok]
    by (simp add: example_exec_req_def)
  have 2: "\<exists>err. CreateExec relay_ok ?dup (example_exec_req ''e1'') = (Some err, ?dup, [])
               \<and> IsAlreadyExists err"
    using CreateExec_failure_paths [of "example_exec_req ''e1''" ?dup relay_ok]
    by (simp add: example_exec_req_def example_task_def execs_Load_def)
  have 3: "\<exists>err. CreateExec relay_ok ?new (example_exec_req ''e1'') = (Some err, ?new, [])
               \<and> IsFailedPrecondition err"
    using CreateExec_failure_paths [of "example_exec_req ''e1''" ?new relay_ok]
    by (simp add: example_exec_req_def example_task_def execs_Load_def testShimExec_def)
  have e: "\<exists>ht' tr. CreateExec relay_fails ?run (example_exec_req ''e1'')
                      = (Some (ErrExternal ''relay''), ht', tr)"
    by (simp add: CreateExec_def example_exec_req_def example_task_def execs_Load_def
        testShimExec_def relay_fails_def)
  then obtain ht' tr where r: "CreateExec relay_fails ?run (example_exec_req ''e1'')
                      = (Some (ErrExternal ''relay''), ht', tr)"
    by blast
  have 4: "CreateExec relay_fails ?run (example_exec_req ''e1'')
             = (Some (ErrExternal ''relay''), ?run, [])"
    using CreateExec_failure_paths [of "example_exec_req ''e1''" ?run relay_fails] r
    by simp
  from 1 2 3 4 show ?thesis by blast
qed

section \<open>KillExec: all with a named exec\<close>

text \<open>
  Claim C9. For every KillExec call with all == true and a non-empty eid naming an
  existing exec, the call fails with a precondition violation, no signal is dispatched
  and the task is unchanged; and if a non-empty eid names no existing exec the call
  returns not-found (whatever \<open>all\<close> is: the lookup comes first).
\<close>

theorem KillExec_all_requires_empty_eid:
  "eid \<noteq> [] \<Longrightarrow>
   (execs_Load (ht_execs ht) eid \<noteq> None \<longrightarrow>
      (\<exists>err. KillExec K ht eid signal True = (Some err, ht, []) \<and> IsFailedPrecondition err))
   \<and> (execs_Load (ht_execs ht) eid = None \<longrightarrow>
      (\<exists>err. KillExec K ht eid signal all = (Some err, ht, []) \<and> IsNotFound err))"
  by (auto simp: KillExec_def GetExec_def IsFailedPrecondition_def IsNotFound_def)

theorem KillExec_all_requires_empty_eid_witness:
  "(\<exists>err. KillExec testShimExec_Kill
            (example_task shimExecStateRunning [(''e1'', testShimExec ''e1'' 101 shimExecStateRunning)])
            ''e1'' 9 True
          = (Some err,
             example_task shimExecStateRunning [(''e1'', testShimExec ''e1'' 101 shimExecStateRunning)],
             [])
        \<and> IsFailedPrecondition err)
   \<and> (\<exists>err. KillExec testShimExec_Kill
              (example_task shimExecStateRunning [(''e1'', testShimExec ''e1'' 101 shimExecStateRunning)])
              ''e2'' 9 True
            = (Some err,
               example_task shimExecStateRunning [(''e1'', testShimExec ''e1'' 101 shimExecStateRunning)],
               [])
          \<and> IsNotFound err)"
proof -
  let ?ht = "example_task shimExecStateRunning [(''e1'', testShimExec ''e1'' 101 shimExecStateRunning)]"
  have n1: "''e1'' \<noteq> []" and n2: "''e2'' \<noteq> []" by simp_all
  have l1: "execs_Load (ht_execs ?ht) ''e1'' \<noteq> None"
    by (simp add: example_task_def execs_Load_def)
  have l2: "execs_Load (ht_execs ?ht) ''e2'' = None"
    by (simp add: example_task_def execs_Load_def)
  from KillExec_all_requires_empty_eid [OF n1, of ?ht testShimExec_Kill 9 True] l1
  have 1: "\<exists>err. KillExec testShimExec_Kill ?ht ''e1'' 9 True = (Some err, ?ht, [])
              \<and> IsFailedPrecondition err"
    by blast
  from KillExec_all_requires_empty_eid [OF n2, of ?ht testShimExec_Kill 9 True] l2
  have 2: "\<exists>err. KillExec testShimExec_Kill ?ht ''e2'' 9 True = (Some err, ?ht, [])
              \<and> IsNotFound err"
    by blast
  from 1 2 show ?thesis by blast
qed

section \<open>DeleteExec\<close>

text \<open>
  Claim C6, as stated, fails on the init exec: the init exec has exited, the registry
  holds a Running exec, and DeleteExec("") is refused with a precondition violation
  instead of returning the init exec's triple.
\<close>

theorem DeleteExec_init_exited_rejected:
  "GetExec (example_task shimExecStateExited [(''e1'', testShimExec ''e1'' 101 shimExecStateRunning)]) []
     = Inr (testShimExec ''t1'' 100 shimExecStateExited)
   \<and> State (testShimExec ''t1'' 100 shimExecStateExited) = shimExecStateExited
   \<and> DeleteExec (example_task shimExecStateExited [(''e1'', testShimExec ''e1'' 101 shimExecStateRunning)]) []
     = (Inl (Wrap ErrFailedPrecondition ''cannot delete init exec with un-exited additional exec's''),
        example_task shimExecStateExited [(''e1'', testShimExec ''e1'' 101 shimExecStateRunning)],
        [])"
  by (simp add: DeleteExec_def GetExec_def example_task_def testShimExec_def unexited_callback_def)

text \<open>
  Claim C6, amended. For every DeleteExec call on an existing exec: if the exec's state
  is not Exited the call fails with a precondition violation, the task is unchanged and
  nothing is published; if it is Exited and either eid is non-empty or every exec of the
  registry is Exited, the call returns the exec's captured (pid, exitStatus, exitedAt),
  removes the exec from the registry exactly when eid is non-empty (no other entry
  changes, and with the empty eid the task is unchanged), and publishes one task-delete
  event carrying those values.
\<close>

theorem DeleteExec_contract:
  "GetExec ht eid = Inr e \<Longrightarrow>
   (State e \<noteq> shimExecStateExited \<longrightarrow>
      (\<exists>err. DeleteExec ht eid = (Inl err, ht, []) \<and> IsFailedPrecondition err))
   \<and> (State e = shimExecStateExited
        \<and> (eid \<noteq> [] \<or> (\<forall>(k, v) \<in> set (ht_execs ht). State v = shimExecStateExited)) \<longrightarrow>
      (\<exists>ht'. DeleteExec ht eid =
               (Inr (uint (sr_Pid (Status e)), sr_ExitStatus (Status e), sr_ExitedAt (Status e)),
                ht',
                [Publish TaskDeleteEventTopic
                   (TaskDelete (ht_id ht) eid (sr_Pid (Status e)) (sr_ExitStatus (Status e))
                      (sr_ExitedAt (Status e)))])
          \<and> (eid = [] \<longrightarrow> ht' = ht)
          \<and> (eid \<noteq> [] \<longrightarrow>
                ht' = ht\<lparr>ht_execs := execs_Delete (ht_execs ht) eid\<rparr>
                \<and> execs_Load (ht_execs ht') eid = None
                \<and> (\<forall>k. k \<noteq> eid \<longrightarrow> execs_Load (ht_execs ht') k = execs_Load (ht_execs ht) k))))"
proof (intro conjI impI)
  assume g: "GetExec ht eid = Inr e" and ne: "State e \<noteq> shimExecStateExited"
  show "\<exists>err. DeleteExec ht eid = (Inl err, ht, []) \<and> IsFailedPrecondition err"
    using g ne
    by (auto simp: DeleteExec_def IsFailedPrecondition_def newExecInvalidStateError_def)
next
  assume g: "GetExec ht eid = Inr e"
    and ex: "State e = shimExecStateExited
        \<and> (eid \<noteq> [] \<or> (\<forall>(k, v) \<in> set (ht_execs ht). State v = shimExecStateExited))"
  have chk: "\<not> (eid = [] \<and> execs_Range (ht_execs ht) unexited_callback False)"
    using ex Range_unexited_all_Exited by blast
  show "\<exists>ht'. DeleteExec ht eid =
               (Inr (uint (sr_Pid (Status e)), sr_ExitStatus (Status e), sr_ExitedAt (Status e)),
                ht',
                [Publish TaskDeleteEventTopic
                   (TaskDelete (ht_id ht) eid (sr_Pid (Status e)) (sr_ExitStatus (Status e))
                      (sr_ExitedAt (Status e)))])
          \<and> (eid = [] \<longrightarrow> ht' = ht)
          \<and> (eid \<noteq> [] \<longrightarrow>
                ht' = ht\<lparr>ht_execs := execs_Delete (ht_execs ht) eid\<rparr>
                \<and> execs_Load (ht_execs ht') eid = None
                \<and> (\<forall>k. k \<noteq> eid \<longrightarrow> execs_Load (ht_execs ht') k = execs_Load (ht_execs ht) k))"
    using g ex chk
    by (simp add: DeleteExec_def Let_def Load_Delete_same Load_Delete_other)
qed

theorem DeleteExec_contract_witness:
  "(\<exists>err. DeleteExec (example_task shimExecStateRunning [(''e1'', testShimExec ''e1'' 101 shimExecStateRunning)]) ''e1''
          = (Inl err,
             example_task shimExecStateRunning [(''e1'', testShimExec ''e1'' 101 shimExecStateRunning)],
             [])
        \<and> IsFailedPrecondition err)
   \<and> DeleteExec (example_task shimExecStateRunning [(''e1'', testShimExec ''e1'' 101 shimExecStateExited)]) ''e1''
     = (Inr (101, 255, 0),
        example_task shimExecStateRunning [],
        [Publish TaskDeleteEventTopic (TaskDelete ''t1'' ''e1'' 101 255 0)])
   \<and> DeleteExec (example_task shimExecStateExited [(''e1'', testShimExec ''e1'' 101 shimExecStateExited)]) []
     = (Inr (100, 255, 0),
        example_task shimExecStateExited [(''e1'', testShimExec ''e1'' 101 shimExecStateExited)],
        [Publish TaskDeleteEventTopic (TaskDelete ''t1'' [] 100 255 0)])"
proof -
  let ?live = "example_task shimExecStateRunning [(''e1'', testShimExec ''e1'' 101 shimExecStateRunning)]"
  let ?done = "example_task shimExecStateRunning [(''e1'', testShimExec ''e1'' 101 shimExecStateExited)]"
  let ?fin = "example_task shimExecStateExited [(''e1'', testShimExec ''e1'' 101 shimExecStateExited)]"
  have g1: "GetExec ?live ''e1'' = Inr (testShimExec ''e1'' 101 shimExecStateRunning)"
    by (simp add: GetExec_def example_task_def execs_Load_def)
  have g2: "GetExec ?done ''e1'' = Inr (testShimExec ''e1'' 101 shimExecStateExited)"
    by (simp add: GetExec_def example_task_def execs_Load_def)
  have g3: "GetExec ?fin [] = Inr (testShimExec ''t1'' 100 shimExecStateExited)"
    by (simp add: GetExec_def example_task_def)
  have 1: "\<exists>err. DeleteExec ?live ''e1'' = (Inl err, ?live, []) \<and> IsFailedPrecondition err"
    using DeleteExec_contract [OF g1] by (simp add: testShimExec_def)
  have 2: "DeleteExec ?done ''e1''
             = (Inr (101, 255, 0), example_task shimExecStateRunning [],
                [Publish TaskDeleteEventTopic (TaskDelete ''t1'' ''e1'' 101 255 0)])"
    using DeleteExec_contract [OF g2]
    by (simp add: testShimExec_def testShimExec_Status_def example_task_def execs_Delete_def)
  have 3: "DeleteExec ?fin []
             = (Inr (100, 255, 0), ?fin,
                [Publish TaskDeleteEventTopic (TaskDelete ''t1'' [] 100 255 0)])"
    using DeleteExec_contract [OF g3]
    by (simp add: testShimExec_def testShimExec_Status_def example_task_def)
  from 1 2 3 show ?thesis by blast
qed

section \<open>The teardown sequence: terminate\<close>

lemma Terminate_stop_container:
  "Terminate \<in> set (stop_container env) \<longleftrightarrow> Shutdown_res env \<noteq> None"
  by (cases "Shutdown_res env") (simp_all add: stop_container_def)

lemma Terminate_release_and_close: "Terminate \<notin> set (release_and_close env)"
  by (auto simp: release_and_close_def log_if_def split: option.splits if_splits)

lemma Terminate_close_host: "Terminate \<notin> set (close_host env ht)"
  by (auto simp: close_host_def log_if_def split: option.splits if_splits)

lemma Terminate_attempted:
  "Terminate \<in> set (waitForExit env ht) \<longleftrightarrow> ht_c ht \<noteq> None \<and> Shutdown_res env \<noteq> None"
  by (cases "ht_c ht")
     (simp_all add: waitForExit_def Terminate_stop_container Terminate_release_and_close
        Terminate_close_host)

lemma AlreadyStopped_is_success:
  "Terminate_res env = Some err \<Longrightarrow> IsAlreadyStopped err \<Longrightarrow>
   waitForExit env ht = waitForExit (env\<lparr>Terminate_res := None\<rparr>) ht"
  by (auto simp: waitForExit_def stop_container_def release_and_close_def close_host_def
      split: option.splits)

lemma pending_shutdown_then_terminate:
  assumes c: "ht_c ht \<noteq> None" and s: "Shutdown_res env = Some err" and p: "IsPending err"
  shows "\<exists>log post. waitForExit env ht =
            InitWait # Shutdown # WaitTimeout shutdownTimeout # log @ Terminate # post
          \<and> list_all is_LogError log"
proof -
  obtain h where h: "ht_c ht = Some h" using c by auto
  let ?log = "log_if ''failed to wait for container shutdown'' (WaitTimeout_res env shutdownTimeout)"
  have l: "list_all is_LogError ?log"
    by (cases "WaitTimeout_res env shutdownTimeout") (simp_all add: log_if_def)
  have "\<exists>post. waitForExit env ht =
          InitWait # Shutdown # WaitTimeout shutdownTimeout # ?log @ Terminate # post"
    using h s p by (simp add: waitForExit_def stop_container_def)
  then show ?thesis using l by blast
qed

lemma pending_terminate_waits:
  assumes c: "ht_c ht \<noteq> None" and s: "Shutdown_res env \<noteq> None"
    and t: "Terminate_res env = Some err" and p: "IsPending err"
  shows "\<exists>pre post. waitForExit env ht = pre @ Terminate # WaitTimeout terminateTimeout # post"
proof -
  have ns: "\<not> IsAlreadyStopped err"
    using p by (auto simp: IsPending_def IsAlreadyStopped_def)
  obtain serr where serr: "Shutdown_res env = Some serr" using s by auto
  obtain h where h: "ht_c ht = Some h" using c by auto
  let ?pre = "InitWait # Shutdown #
     (if \<not> IsPending serr then [LogError ''failed to shutdown container'' serr]
      else WaitTimeout shutdownTimeout #
           log_if ''failed to wait for container shutdown'' (WaitTimeout_res env shutdownTimeout))"
  let ?post = "log_if ''failed to wait for container terminate'' (WaitTimeout_res env terminateTimeout)
     @ release_and_close env @ close_host env ht"
  have "waitForExit env ht = ?pre @ Terminate # WaitTimeout terminateTimeout # ?post"
    using t p ns serr h by (simp add: waitForExit_def stop_container_def)
  then show ?thesis by blast
qed

text \<open>
  Claim C7, as stated, fails when the graceful shutdown reports pending: after the wait
  of five minutes the forced terminate is attempted all the same.
\<close>

theorem waitForExit_terminate_after_pending_shutdown:
  "Shutdown_res (example_hcs_env (Some ErrPending) None) = Some ErrPending
   \<and> IsPending ErrPending
   \<and> waitForExit (example_hcs_env (Some ErrPending) None) (teardown_task (Some 1) False None)
     = [InitWait, Shutdown, WaitTimeout 300000000000, Terminate, ReleaseResources, CloseContainer]"
  by (simp add: waitForExit_def stop_container_def release_and_close_def close_host_def
      log_if_def example_hcs_env_def teardown_task_def IsPending_def shutdownTimeout_def
      Minute_def Second_def)

text \<open>
  Claim C7, amended. In the teardown sequence, forced terminate of the container handle
  is attempted if and only if a handle is present and the graceful shutdown returned an
  error, pending included: after a pending shutdown the sequence waits up to five minutes
  and then attempts terminate. When terminate is attempted, an alreadyStopped result is
  treated as success (the sequence is the one of a terminate that succeeded), and a
  pending result leads to a bounded wait of 30 seconds right after it.
\<close>

theorem waitForExit_terminate:
  "(Terminate \<in> set (waitForExit env ht) \<longleftrightarrow> ht_c ht \<noteq> None \<and> Shutdown_res env \<noteq> None)
   \<and> (\<forall>err. ht_c ht \<noteq> None \<and> Shutdown_res env = Some err \<and> IsPending err \<longrightarrow>
         (\<exists>log post. waitForExit env ht =
              InitWait # Shutdown # WaitTimeout shutdownTimeout # log @ Terminate # post
            \<and> list_all is_LogError log))
   \<and> (\<forall>err. Terminate_res env = Some err \<and> IsAlreadyStopped err \<longrightarrow>
         waitForExit env ht = waitForExit (env\<lparr>Terminate_res := None\<rparr>) ht)
   \<and> (\<forall>err. ht_c ht \<noteq> None \<and> Shutdown_res env \<noteq> None \<and> Terminate_res env = Some err
            \<and> IsPending err \<longrightarrow>
         (\<exists>pre post. waitForExit env ht = pre @ Terminate # WaitTimeout terminateTimeout # post))
   \<and> shutdownTimeout = 300 * 1000000000
   \<and> terminateTimeout = 30 * 1000000000"
proof (intro conjI allI impI)
  show "Terminate \<in> set (waitForExit env ht) \<longleftrightarrow> ht_c ht \<noteq> None \<and> Shutdown_res env \<noteq> None"
    by (rule Terminate_attempted)
next
  fix err
  assume "ht_c ht \<noteq> None \<and> Shutdown_res env = Some err \<and> IsPending err"
  then show "\<exists>log post. waitForExit env ht =
              InitWait # Shutdown # WaitTimeout shutdownTimeout # log @ Terminate # post
            \<and> list_all is_LogError log"
    using pending_shutdown_then_terminate by blast
next
  fix err
  assume "Terminate_res env = Some err \<and> IsAlreadyStopped err"
  then show "waitForExit env ht = waitForExit (env\<lparr>Terminate_res := None\<rparr>) ht"
    using AlreadyStopped_is_success by blast
next
  fix err
  assume "ht_c ht \<noteq> None \<and> Shutdown_res env \<noteq> None \<and> Terminate_res env = Some err
            \<and> IsPending err"
  then show "\<exists>pre post. waitForExit env ht = pre @ Terminate # WaitTimeout terminateTimeout # post"
    using pending_terminate_waits by blast
next
  show "shutdownTimeout = 300 * 1000000000"
    by (simp add: shutdownTimeout_def Minute_def Second_def)
next
  show "terminateTimeout = 30 * 1000000000"
    by (simp add: terminateTimeout_def Second_def)
qed

theorem waitForExit_terminate_witness:
  "Terminate \<in> set (waitForExit (example_hcs_env (Some ErrPending) (Some ErrPending))
                      (teardown_task (Some 1) False None))
   \<and> Terminate \<notin> set (waitForExit (example_hcs_env None None) (teardown_task (Some 1) False None))
   \<and> (\<exists>log post. waitForExit (example_hcs_env (Some ErrPending) (Some ErrPending))
                     (teardown_task (Some 1) False None)
                   = InitWait # Shutdown # WaitTimeout 300000000000 # log @ Terminate # post)
   \<and> waitForExit (example_hcs_env (Some (ErrExternal ''failed'')) (Some ErrAlreadyStopped))
        (teardown_task (Some 1) False None)
     = waitForExit (example_hcs_env (Some (ErrExternal ''failed'')) None)
        (teardown_task (Some 1) False None)
   \<and> (\<exists>pre post. waitForExit (example_hcs_env (Some ErrPending) (Some ErrPending))
                     (teardown_task (Some 1) False None)
                   = pre @ Terminate # WaitTimeout 30000000000 # post)"
proof -
  let ?ht = "teardown_task (Some 1) False None"
  let ?pp = "example_hcs_env (Some ErrPending) (Some ErrPending)"
  let ?ok = "example_hcs_env None None"
  let ?st = "example_hcs_env (Some (ErrExternal ''failed'')) (Some ErrAlreadyStopped)"
  have c: "ht_c ?ht \<noteq> None" by (simp add: teardown_task_def)
  have s: "Shutdown_res ?pp = Some ErrPending" and t: "Terminate_res ?pp = Some ErrPending"
    and s0: "Shutdown_res ?ok = None" and t1: "Terminate_res ?st = Some ErrAlreadyStopped"
    by (simp_all add: example_hcs_env_def)
  have p: "IsPending ErrPending" and a: "IsAlreadyStopped ErrAlreadyStopped"
    by (simp_all add: IsPending_def IsAlreadyStopped_def)
  have u: "?st\<lparr>Terminate_res := None\<rparr> = example_hcs_env (Some (ErrExternal ''failed'')) None"
    by (simp add: example_hcs_env_def)
  note th1 = waitForExit_terminate [of ?pp ?ht]
  note th2 = waitForExit_terminate [of ?ok ?ht]
  note th3 = waitForExit_terminate [of ?st ?ht]
  have 1: "Terminate \<in> set (waitForExit ?pp ?ht)"
    using th1 c s by simp
  have 2: "Terminate \<notin> set (waitForExit ?ok ?ht)"
    using th2 s0 by simp
  have 3: "\<exists>log post. waitForExit ?pp ?ht
                   = InitWait # Shutdown # WaitTimeout 300000000000 # log @ Terminate # post"
    using th1 c s p by auto
  have 4: "waitForExit ?st ?ht = waitForExit (example_hcs_env (Some (ErrExternal ''failed'')) None) ?ht"
    using th3 t1 a u by auto
  have 5: "\<exists>pre post. waitForExit ?pp ?ht = pre @ Terminate # WaitTimeout 30000000000 # post"
    using th1 c s t p by auto
  from 1 2 3 4 5 show ?thesis by blast
qed

section \<open>The teardown sequence: the hosting VM\<close>

text \<open>
  Every task that \<^verbatim>\<open>newHcsTask\<close> returns, the one the teardown sequence is launched on,
  has its container handle, and no operation on the registry takes it away or changes
  who owns the hosting VM.
\<close>

lemma newHcsTask_container_present:
  "newHcsTask env parent ownsParent req s = (Inr ht, tr) \<Longrightarrow>
   ht_c ht \<noteq> None \<and> ht_ownsHost ht = ownsParent \<and> ht_host ht = parent"
  by (auto simp: newHcsTask_def Let_def split: sum.splits option.splits prod.splits)

lemma CreateExec_keeps_handles:
  "CreateExec newRelay ht req = (r, ht', tr) \<Longrightarrow>
   ht_c ht' = ht_c ht \<and> ht_ownsHost ht' = ht_ownsHost ht \<and> ht_host ht' = ht_host ht"
  by (auto simp: CreateExec_def Let_def split: if_splits option.splits)

lemma DeleteExec_keeps_handles:
  "DeleteExec ht eid = (r, ht', tr) \<Longrightarrow>
   ht_c ht' = ht_c ht \<and> ht_ownsHost ht' = ht_ownsHost ht \<and> ht_host ht' = ht_host ht"
  by (auto simp: DeleteExec_def Let_def split: sum.splits if_splits)

lemma kill_ref_keeps_handles:
  "kill_ref K signal r ht = (err, ht') \<Longrightarrow>
   ht_c ht' = ht_c ht \<and> ht_ownsHost ht' = ht_ownsHost ht \<and> ht_host ht' = ht_host ht"
  by (auto simp: kill_ref_def split: exec_ref.splits option.splits prod.splits)

lemma eg_Wait_keeps_handles:
  "eg_Wait K signal eg ht = (err, ht', tr) \<Longrightarrow>
   ht_c ht' = ht_c ht \<and> ht_ownsHost ht' = ht_ownsHost ht \<and> ht_host ht' = ht_host ht"
proof (induction eg arbitrary: ht err ht' tr)
  case Nil
  then show ?case by simp
next
  case (Cons r eg)
  obtain e1 ht1 where k: "kill_ref K signal r ht = (e1, ht1)"
    by (cases "kill_ref K signal r ht")
  obtain e2 ht2 tr2 where w: "eg_Wait K signal eg ht1 = (e2, ht2, tr2)"
    by (cases "eg_Wait K signal eg ht1")
  have "ht' = ht2"
    using Cons.prems k w by simp
  then show ?case
    using Cons.IH [OF w] kill_ref_keeps_handles [OF k] by simp
qed

lemma KillExec_returns_or_waits:
  "KillExec K ht eid signal all = (err, ht', tr) \<Longrightarrow>
   ht' = ht \<or> (\<exists>eg. eg_Wait K signal eg ht = (err, ht', tr))"
  by (auto simp: KillExec_def Let_def simp del: eg_Wait.simps split: sum.splits if_splits)

lemma KillExec_keeps_handles:
  "KillExec K ht eid signal all = (err, ht', tr) \<Longrightarrow>
   ht_c ht' = ht_c ht \<and> ht_ownsHost ht' = ht_ownsHost ht \<and> ht_host ht' = ht_host ht"
  using KillExec_returns_or_waits eg_Wait_keeps_handles by metis

text \<open>The entries of a run, stage by stage.\<close>

lemma HostClose_stop_container: "HostClose \<notin> set (stop_container env)"
  by (auto simp: stop_container_def log_if_def split: option.splits if_splits)

lemma HostClose_release_and_close: "HostClose \<notin> set (release_and_close env)"
  by (auto simp: release_and_close_def log_if_def split: option.splits if_splits)

lemma HostClose_attempted:
  "HostClose \<in> set (waitForExit env ht) \<longleftrightarrow> ht_ownsHost ht \<and> ht_host ht \<noteq> None"
  by (auto simp: waitForExit_def HostClose_stop_container HostClose_release_and_close
      close_host_def split: option.splits)

lemma log_if_logs: "list_all is_LogError (log_if msg r)"
  by (cases r) (simp_all add: log_if_def)

lemma stop_container_shape:
  "\<exists>stop. stop_container env = Shutdown # stop \<and> list_all stop_entry stop"
proof (cases "Shutdown_res env")
  case None
  then show ?thesis by (simp add: stop_container_def)
next
  case (Some serr)
  have t: "list_all stop_entry
             (case Terminate_res env of
                None \<Rightarrow> []
              | Some err \<Rightarrow>
                  if IsAlreadyStopped err then []
                  else if \<not> IsPending err then [LogError ''failed to terminate container'' err]
                  else WaitTimeout terminateTimeout #
                       log_if ''failed to wait for container terminate''
                         (WaitTimeout_res env terminateTimeout))"
    by (cases "Terminate_res env"; cases "WaitTimeout_res env terminateTimeout")
       (simp_all add: log_if_def)
  have s: "list_all stop_entry
             (if \<not> IsPending serr then [LogError ''failed to shutdown container'' serr]
              else WaitTimeout shutdownTimeout #
                   log_if ''failed to wait for container shutdown''
                     (WaitTimeout_res env shutdownTimeout))"
    by (cases "WaitTimeout_res env shutdownTimeout") (simp_all add: log_if_def)
  show ?thesis
    using Some s t by (simp add: stop_container_def)
qed

lemma release_and_close_shape:
  "\<exists>rel cl. release_and_close env = ReleaseResources # rel @ CloseContainer # cl
     \<and> list_all is_LogError rel \<and> list_all is_LogError cl"
proof -
  let ?rel = "log_if ''failed to release container resources'' (ReleaseResources_res env)"
  let ?cl = "case Close_res env of
               None \<Rightarrow> []
             | Some err \<Rightarrow>
                 if \<not> IsAlreadyClosed err then [LogError ''failed to close container'' err] else []"
  have 1: "release_and_close env = ReleaseResources # ?rel @ CloseContainer # ?cl"
    by (simp add: release_and_close_def)
  have 2: "list_all is_LogError ?rel"
    by (rule log_if_logs)
  have 3: "list_all is_LogError ?cl"
    by (cases "Close_res env") simp_all
  from 1 2 3 show ?thesis by blast
qed

lemma HostClose_last:
  assumes c: "ht_c ht \<noteq> None" and o: "ht_ownsHost ht" and p: "ht_host ht \<noteq> None"
  shows "\<exists>stop rel cl post.
           waitForExit env ht =
             InitWait # Shutdown # stop @ ReleaseResources # rel @ CloseContainer # cl
             @ HostClose # post
         \<and> list_all stop_entry stop \<and> list_all is_LogError rel
         \<and> list_all is_LogError cl \<and> list_all is_LogError post"
proof -
  obtain h where h: "ht_c ht = Some h"
    using c by auto
  obtain stop where st: "stop_container env = Shutdown # stop" and sl: "list_all stop_entry stop"
    using stop_container_shape by blast
  obtain rel cl where rc: "release_and_close env = ReleaseResources # rel @ CloseContainer # cl"
    and rl: "list_all is_LogError rel" and cll: "list_all is_LogError cl"
    using release_and_close_shape by blast
  let ?post = "log_if ''failed host vm shutdown'' (HostClose_res env)"
  have w: "waitForExit env ht =
             InitWait # Shutdown # stop @ ReleaseResources # rel @ CloseContainer # cl
             @ HostClose # ?post"
    using h o p st rc by (simp add: waitForExit_def close_host_def)
  have pl: "list_all is_LogError ?post"
    by (rule log_if_logs)
  from w sl rl cll pl show ?thesis by blast
qed

text \<open>
  The sequence also runs on a task without a container handle, the stub that the
  comment in the source reserves for tests: the container stages are skipped.
\<close>

lemma waitForExit_nil_handle:
  "ht_c ht = None \<Longrightarrow> waitForExit env ht = InitWait # close_host env ht"
  by (simp add: waitForExit_def)

text \<open>
  Claim C8. In every run of the teardown sequence the hosting VM (the isolation boundary)
  is closed if and only if the task owns it and it is present. On a task with its
  container handle (every task the constructor returns, see
  \<open>newHcsTask_container_present\<close>), that close comes after all the container stages,
  which run in this order: the shutdown, then only waits, the terminate and logs, then
  the release of the resources, then the close of the container handle, each of the last
  two followed by nothing but the log of its failure; after the close of the hosting VM
  only the log of its own failure can follow. So no wait, no terminate, no release and
  no close of the container handle ever comes after the close of the hosting VM.
\<close>

theorem waitForExit_host_close:
  "(HostClose \<in> set (waitForExit env ht) \<longleftrightarrow> ht_ownsHost ht \<and> ht_host ht \<noteq> None)
   \<and> (ht_c ht \<noteq> None \<and> ht_ownsHost ht \<and> ht_host ht \<noteq> None \<longrightarrow>
        (\<exists>stop rel cl post.
           waitForExit env ht =
             InitWait # Shutdown # stop @ ReleaseResources # rel @ CloseContainer # cl
             @ HostClose # post
         \<and> list_all stop_entry stop \<and> list_all is_LogError rel
         \<and> list_all is_LogError cl \<and> list_all is_LogError post))"
  using HostClose_attempted HostClose_last by blast

text \<open>
  An instance: the task that the creation path builds for a Windows guest in its own
  hosting VM 8, torn down by an engine whose shutdown fails and whose terminate is
  pending; and the same task without a hosting VM (a process-isolated container).
\<close>

theorem waitForExit_host_close_witness:
  "fst (newHcsStandaloneTask (example_create_env (IsOptionsWCOW example_wopts) None None)
          example_heap example_req example_spec)
     = Inr (built_task (Some 8))
   \<and> HostClose \<in> set (waitForExit (example_hcs_env (Some (ErrExternal ''failed'')) (Some ErrPending))
                        (built_task (Some 8)))
   \<and> HostClose \<notin> set (waitForExit (example_hcs_env (Some (ErrExternal ''failed'')) (Some ErrPending))
                        (built_task None))
   \<and> (\<exists>stop rel cl post.
         waitForExit (example_hcs_env (Some (ErrExternal ''failed'')) (Some ErrPending))
           (built_task (Some 8))
           = InitWait # Shutdown # stop @ ReleaseResources # rel @ CloseContainer # cl
             @ HostClose # post
         \<and> list_all stop_entry stop \<and> list_all is_LogError rel
         \<and> list_all is_LogError cl \<and> list_all is_LogError post)
   \<and> waitForExit (example_hcs_env (Some (ErrExternal ''failed'')) (Some ErrPending))
        (built_task (Some 8))
     = [InitWait, Shutdown, LogError ''failed to shutdown container'' (ErrExternal ''failed''),
        Terminate, WaitTimeout 30000000000, ReleaseResources, CloseContainer, HostClose]"
proof -
  let ?env = "example_hcs_env (Some (ErrExternal ''failed'')) (Some ErrPending)"
  let ?own = "built_task (Some 8)"
  have b: "fst (newHcsStandaloneTask (example_create_env (IsOptionsWCOW example_wopts) None None)
                  example_heap example_req example_spec) = Inr ?own"
    by (simp add: newHcsStandaloneTask_def create_parent_def create_shim_def newHcsTask_def
        example_create_env_def example_req_def example_spec_def example_windows_def
        example_layers_def example_heap_def make_slice_def copy_slice_def slice_elems_def
        slice_set_def Let_def relay_ok_def built_task_def)
  have o: "ht_c ?own \<noteq> None \<and> ht_ownsHost ?own \<and> ht_host ?own \<noteq> None"
    by (simp add: built_task_def)
  have 1: "HostClose \<in> set (waitForExit ?env ?own)"
    using waitForExit_host_close [of ?env ?own] o by blast
  have 2: "HostClose \<notin> set (waitForExit ?env (built_task None))"
    using waitForExit_host_close [of ?env "built_task None"]
    by (simp add: built_task_def)
  have 3: "\<exists>stop rel cl post. waitForExit ?env ?own
             = InitWait # Shutdown # stop @ ReleaseResources # rel @ CloseContainer # cl
               @ HostClose # post
         \<and> list_all stop_entry stop \<and> list_all is_LogError rel
         \<and> list_all is_LogError cl \<and> list_all is_LogError post"
    using waitForExit_host_close [of ?env ?own] o by blast
  have 4: "waitForExit ?env ?own
     = [InitWait, Shutdown, LogError ''failed to shutdown container'' (ErrExternal ''failed''),
        Terminate, WaitTimeout 30000000000, ReleaseResources, CloseContainer, HostClose]"
    by (simp add: waitForExit_def stop_container_def release_and_close_def close_host_def
        log_if_def example_hcs_env_def built_task_def IsPending_def IsAlreadyStopped_def
        terminateTimeout_def Second_def)
  from b 1 2 3 4 show ?thesis by blast
qed

section \<open>Task creation: a failing start of the hosting VM\<close>

text \<open>
  The result of the creation never depends on what \<^verbatim>\<open>Start\<close> returned: the error of a
  failed start is dropped.
\<close>

lemma newHcsTask_Start_res:
  "newHcsTask (env\<lparr>Start_res := st\<rparr>) parent owns req s = newHcsTask env parent owns req s"
  by (simp add: newHcsTask_def Let_def split: sum.splits option.splits prod.splits)

lemma create_shim_Start_res:
  "create_shim (env\<lparr>Start_res := st\<rparr>) parent req s = create_shim env parent req s"
  by (simp add: create_shim_def newHcsTask_Start_res)

lemma create_parent_Start_res:
  "create_parent (env\<lparr>Start_res := st\<rparr>) h s opts = create_parent env h s opts"
  by (simp add: create_parent_def make_slice_def Let_def split: uvm_opts.splits option.splits)

lemma Start_error_dropped:
  "fst (newHcsStandaloneTask (env\<lparr>Start_res := st\<rparr>) h req s) = fst (newHcsStandaloneTask env h req s)"
proof (cases "GetSandboxTypeAndID_res env")
  case (Inl err)
  then show ?thesis by (simp add: newHcsStandaloneTask_def)
next
  case ct: (Inr ct)
  show ?thesis
  proof (cases "SpecToUVMCreateOpts_res env")
    case (Inl err)
    then show ?thesis
      using ct by (simp add: newHcsStandaloneTask_def create_shim_Start_res)
  next
    case opts: (Inr opts)
    obtain r0 h0 tr0 where cp: "create_parent env h s opts = (r0, h0, tr0)"
      by (cases "create_parent env h s opts")
    show ?thesis
    proof (cases r0)
      case (Inl err)
      then show ?thesis
        using ct opts cp
        by (simp add: newHcsStandaloneTask_def create_shim_Start_res create_parent_Start_res)
    next
      case (Inr parent)
      obtain r1 tr1 where cs: "create_shim env (Some parent) req s = (r1, tr1)"
        by (cases "create_shim env (Some parent) req s")
      show ?thesis
        using ct opts cp Inr cs
        by (simp add: newHcsStandaloneTask_def create_shim_Start_res create_parent_Start_res
            Let_def)
    qed
  qed
qed
text \<open>
  Claim C3 (if starting the boundary fails, the boundary is closed and the creation fails
  with an error; no task is built on a boundary whose start failed). The code at a
  Linux-guest isolated request whose VM 7 is created and fails to start, everything else
  succeeding: the VM is closed, then the container is created inside the closed VM 7,
  the teardown sequence is launched, the task-create event is published, and the call
  returns a task that owns VM 7, with no error.
\<close>

theorem newHcsStandaloneTask_start_failure_continues:
  "newHcsStandaloneTask
     (example_create_env (IsOptionsLCOW example_lopts) None (Some (ErrExternal ''start failed'')))
     example_heap example_req example_spec
   = (Inr \<lparr>ht_id = ''t1'', ht_isWCOW = True, ht_c = Some 1, ht_cr = Some 2,
           ht_init = newHcsExec ''t1'' ''t1'' ''b'',
           ht_ownsHost = True, ht_host = Some 7, ht_execs = []\<rparr>,
      example_heap,
      [CreateLCOW example_lopts, HostStart, HostClose,
       CreateContainer ''t1'' ''shim.exe'' (Some 7) [],
       GoWaitForExit,
       Publish TaskCreateEventTopic
         (TaskCreate ''t1'' ''b'' []
            \<lparr>io_Stdin = [], io_Stdout = [], io_Stderr = [], io_Terminal = False\<rparr> [] 0)])"
  by (simp add: newHcsStandaloneTask_def create_parent_def create_shim_def newHcsTask_def
      example_create_env_def example_req_def example_spec_def example_windows_def
      relay_ok_def newHcsExec_def)

section \<open>Task creation: the layer folders of a Windows guest\<close>

lemma create_parent_frame:
  "a < length h \<Longrightarrow> create_parent env h s opts = (r, h', tr) \<Longrightarrow> h' ! a = h ! a"
  by (auto simp: create_parent_def make_slice_def copy_slice_def slice_set_def Let_def nth_append
      split: uvm_opts.splits option.splits if_splits)

lemma newHcsStandaloneTask_heap:
  "newHcsStandaloneTask env h req s = (r, h', tr) \<Longrightarrow>
   h' = h \<or> (\<exists>opts r' tr'. create_parent env h s opts = (r', h', tr'))"
  by (auto simp: newHcsStandaloneTask_def Let_def split: sum.splits if_splits prod.splits)

lemma newHcsStandaloneTask_frame:
  "a < length h \<Longrightarrow> newHcsStandaloneTask env h req s = (r, h', tr) \<Longrightarrow> h' ! a = h ! a"
  using newHcsStandaloneTask_heap create_parent_frame by metis

lemma create_parent_WCOW:
  assumes w: "Windows s = Some w" and v: "valid_slice h (LayerFolders w)"
    and n: "0 < sl_len (LayerFolders w)"
    and mk: "MkdirAll_res env (filepath_Join env (last (slice_elems h (LayerFolders w))) ''vm'') = None"
  shows "\<exists>h' layers.
           create_parent env h s (IsOptionsWCOW wopts) =
             (CreateWCOW_res env, h',
              [MkdirAll (filepath_Join env (last (slice_elems h (LayerFolders w))) ''vm''),
               CreateWCOW (wopts\<lparr>wopts_LayerFolders := layers\<rparr>)])
         \<and> sl_ptr layers = length h \<and> sl_len layers = sl_len (LayerFolders w)
         \<and> slice_elems h' layers =
             butlast (slice_elems h (LayerFolders w))
             @ [filepath_Join env (last (slice_elems h (LayerFolders w))) ''vm'']"
proof -
  let ?src = "LayerFolders w"
  let ?n = "sl_len ?src"
  let ?xs = "slice_elems h ?src"
  let ?layers = "\<lparr>sl_ptr = length h, sl_len = ?n\<rparr>"
  let ?h1 = "h @ [replicate ?n []]"
  let ?h2 = "copy_slice ?h1 ?layers ?src"
  have len: "length ?xs = ?n"
    using v by (simp add: slice_elems_def valid_slice_def)
  have ne: "?xs \<noteq> []"
    using len n by auto
  have h2: "?h2 = h @ [?xs]"
    using v by (simp add: copy_slice_def valid_slice_def slice_elems_def nth_append)
  have e2: "slice_elems ?h2 ?layers = ?xs"
    using len by (simp add: h2 slice_elems_def)
  have lst: "?xs ! (?n - 1) = last ?xs"
    using ne len by (simp add: last_conv_nth)
  let ?vm = "filepath_Join env (last ?xs) ''vm''"
  let ?h3 = "slice_set ?h2 ?layers (?n - 1) ?vm"
  have h3: "?h3 = h @ [?xs[?n - 1 := ?vm]]"
    by (simp add: h2 slice_set_def)
  have upd: "?xs[?n - 1 := ?vm] = butlast ?xs @ [?vm]"
    using ne len by (metis append_butlast_last_id length_butlast list_update_length)
  have e3: "slice_elems ?h3 ?layers = butlast ?xs @ [?vm]"
  proof -
    have "slice_elems (h @ [?xs[?n - 1 := ?vm]]) ?layers = ?xs[?n - 1 := ?vm]"
      using len by (simp add: slice_elems_def)
    then show ?thesis by (simp only: h3 upd)
  qed
  have "create_parent env h s (IsOptionsWCOW wopts) =
          (CreateWCOW_res env, ?h3, [MkdirAll ?vm, CreateWCOW (wopts\<lparr>wopts_LayerFolders := ?layers\<rparr>)])"
    using w n mk e2 lst by (simp add: create_parent_def make_slice_def Let_def)
  then show ?thesis
    using e3 by (intro exI[of _ ?h3] exI[of _ ?layers]) simp
qed

lemma newHcsStandaloneTask_after_parent:
  assumes "GetSandboxTypeAndID_res env = Inr KubernetesContainerTypeNone"
    and "Build_ge_RS5 env" and "IsIsolated env"
    and "SpecToUVMCreateOpts_res env = Inr opts"
    and "create_parent env h s opts = (r0, h0, tr0)"
    and "newHcsStandaloneTask env h req s = (r, h', tr)"
  shows "h' = h0 \<and> set tr0 \<subseteq> set tr"
  using assms
  by (auto simp: newHcsStandaloneTask_def Let_def split: sum.splits prod.splits)

lemma create_parent_WCOW_mkdir_fails:
  assumes w: "Windows s = Some w" and v: "valid_slice h (LayerFolders w)"
    and n: "0 < sl_len (LayerFolders w)"
    and mk: "MkdirAll_res env (filepath_Join env (last (slice_elems h (LayerFolders w))) ''vm'') = Some err"
  shows "\<exists>h'. create_parent env h s (IsOptionsWCOW wopts) =
           (Inl err, h', [MkdirAll (filepath_Join env (last (slice_elems h (LayerFolders w))) ''vm'')])"
proof -
  let ?src = "LayerFolders w"
  let ?n = "sl_len ?src"
  let ?xs = "slice_elems h ?src"
  let ?layers = "\<lparr>sl_ptr = length h, sl_len = ?n\<rparr>"
  let ?h2 = "copy_slice (h @ [replicate ?n []]) ?layers ?src"
  have len: "length ?xs = ?n"
    using v by (simp add: slice_elems_def valid_slice_def)
  have ne: "?xs \<noteq> []"
    using len n by auto
  have h2: "?h2 = h @ [?xs]"
    using v by (simp add: copy_slice_def valid_slice_def slice_elems_def nth_append)
  have e2: "slice_elems ?h2 ?layers = ?xs"
    using len by (simp add: h2 slice_elems_def)
  have lst: "?xs ! (?n - 1) = last ?xs"
    using ne len by (simp add: last_conv_nth)
  have "create_parent env h s (IsOptionsWCOW wopts) =
          (Inl err, ?h2, [MkdirAll (filepath_Join env (last ?xs) ''vm'')])"
    using w n mk e2 lst by (simp add: create_parent_def make_slice_def Let_def)
  then show ?thesis by blast
qed

lemma newHcsStandaloneTask_parent_fails:
  assumes "GetSandboxTypeAndID_res env = Inr KubernetesContainerTypeNone"
    and "Build_ge_RS5 env" and "IsIsolated env"
    and "SpecToUVMCreateOpts_res env = Inr opts"
    and "create_parent env h s opts = (Inl err, h0, tr0)"
    and "newHcsStandaloneTask env h req s = (r, h', tr)"
  shows "r = Inl err \<and> tr = tr0"
  using assms
  by (auto simp: newHcsStandaloneTask_def)

text \<open>
  Claim C10, as stated, fails when the \<open>vm\<close> directory cannot be created: the creation
  returns the error of \<^verbatim>\<open>os.MkdirAll\<close> before the options receive the copy, and nothing
  is handed to the creation of the boundary.
\<close>

theorem newHcsStandaloneTask_mkdir_failure:
  "newHcsStandaloneTask
     (example_create_env (IsOptionsWCOW example_wopts) (Some (ErrExternal ''mkdir'')) None)
     example_heap example_req example_spec
   = (Inl (ErrExternal ''mkdir''),
      [[''base'', ''scratch''], [''base'', ''scratch'']],
      [MkdirAll ''scratch/vm''])"
  by (simp add: newHcsStandaloneTask_def create_parent_def make_slice_def copy_slice_def
      slice_elems_def example_create_env_def example_spec_def example_windows_def
      example_layers_def example_heap_def Let_def)

text \<open>
  Claim C10, amended. For every creation request, no array that is in the heap before
  the call is changed by it, on any path; so the layer-folder list of the runtime
  specification is left as it was. For every Windows-guest isolated creation request
  whose layer list has a last entry: if the \<open>vm\<close> directory under that entry is created,
  the options handed to the creation of the boundary hold a slice on a fresh array, with
  the length of the specification's list and its entries, only the last one replaced by
  \<^verbatim>\<open>filepath.Join(last, "vm")\<close>; and if creating the directory fails, the creation fails
  with that error and nothing but the \<^verbatim>\<open>os.MkdirAll\<close> call has reached the outside.
\<close>

theorem newHcsStandaloneTask_layer_folders:
  assumes run: "newHcsStandaloneTask env h req s = (r, h', tr)"
  shows "(\<forall>a < length h. h' ! a = h ! a)
    \<and> (\<forall>w. Windows s = Some w \<and> valid_slice h (LayerFolders w) \<longrightarrow>
          slice_elems h' (LayerFolders w) = slice_elems h (LayerFolders w))
    \<and> (\<forall>w wopts.
          GetSandboxTypeAndID_res env = Inr KubernetesContainerTypeNone
          \<and> Build_ge_RS5 env \<and> IsIsolated env
          \<and> SpecToUVMCreateOpts_res env = Inr (IsOptionsWCOW wopts)
          \<and> Windows s = Some w \<and> valid_slice h (LayerFolders w) \<and> 0 < sl_len (LayerFolders w)
          \<and> MkdirAll_res env (filepath_Join env (last (slice_elems h (LayerFolders w))) ''vm'') = None
          \<longrightarrow>
          (\<exists>layers.
             CreateWCOW (wopts\<lparr>wopts_LayerFolders := layers\<rparr>) \<in> set tr
             \<and> sl_ptr layers \<noteq> sl_ptr (LayerFolders w)
             \<and> sl_len layers = sl_len (LayerFolders w)
             \<and> slice_elems h' layers =
                 butlast (slice_elems h (LayerFolders w))
                 @ [filepath_Join env (last (slice_elems h (LayerFolders w))) ''vm'']))
    \<and> (\<forall>w wopts err.
          GetSandboxTypeAndID_res env = Inr KubernetesContainerTypeNone
          \<and> Build_ge_RS5 env \<and> IsIsolated env
          \<and> SpecToUVMCreateOpts_res env = Inr (IsOptionsWCOW wopts)
          \<and> Windows s = Some w \<and> valid_slice h (LayerFolders w) \<and> 0 < sl_len (LayerFolders w)
          \<and> MkdirAll_res env (filepath_Join env (last (slice_elems h (LayerFolders w))) ''vm'') = Some err
          \<longrightarrow>
          r = Inl err
          \<and> tr = [MkdirAll (filepath_Join env (last (slice_elems h (LayerFolders w))) ''vm'')])"
proof (intro conjI allI impI)
  fix a
  assume "a < length h"
  then show "h' ! a = h ! a"
    using run newHcsStandaloneTask_frame by blast
next
  fix w
  assume a: "Windows s = Some w \<and> valid_slice h (LayerFolders w)"
  then have "sl_ptr (LayerFolders w) < length h"
    by (simp add: valid_slice_def)
  then have "h' ! sl_ptr (LayerFolders w) = h ! sl_ptr (LayerFolders w)"
    using run newHcsStandaloneTask_frame by blast
  then show "slice_elems h' (LayerFolders w) = slice_elems h (LayerFolders w)"
    by (simp add: slice_elems_def)
next
  fix w :: specs_Windows and wopts :: OptionsWCOW
  let ?vm = "filepath_Join env (last (slice_elems h (LayerFolders w))) ''vm''"
  assume a: "GetSandboxTypeAndID_res env = Inr KubernetesContainerTypeNone
          \<and> Build_ge_RS5 env \<and> IsIsolated env
          \<and> SpecToUVMCreateOpts_res env = Inr (IsOptionsWCOW wopts)
          \<and> Windows s = Some w \<and> valid_slice h (LayerFolders w) \<and> 0 < sl_len (LayerFolders w)
          \<and> MkdirAll_res env ?vm = None"
  then obtain h0 layers where
    cp: "create_parent env h s (IsOptionsWCOW wopts) =
           (CreateWCOW_res env, h0,
            [MkdirAll ?vm, CreateWCOW (wopts\<lparr>wopts_LayerFolders := layers\<rparr>)])"
    and ptr: "sl_ptr layers = length h" and ln: "sl_len layers = sl_len (LayerFolders w)"
    and el: "slice_elems h0 layers = butlast (slice_elems h (LayerFolders w)) @ [?vm]"
    using create_parent_WCOW [of s w h env wopts] by blast
  have "h' = h0 \<and> set [MkdirAll ?vm, CreateWCOW (wopts\<lparr>wopts_LayerFolders := layers\<rparr>)] \<subseteq> set tr"
    using a cp run newHcsStandaloneTask_after_parent by blast
  then have h0: "h' = h0" and mem: "CreateWCOW (wopts\<lparr>wopts_LayerFolders := layers\<rparr>) \<in> set tr"
    by simp_all
  have fresh: "sl_ptr layers \<noteq> sl_ptr (LayerFolders w)"
    using a ptr by (simp add: valid_slice_def)
  show "\<exists>layers.
             CreateWCOW (wopts\<lparr>wopts_LayerFolders := layers\<rparr>) \<in> set tr
             \<and> sl_ptr layers \<noteq> sl_ptr (LayerFolders w)
             \<and> sl_len layers = sl_len (LayerFolders w)
             \<and> slice_elems h' layers = butlast (slice_elems h (LayerFolders w)) @ [?vm]"
    using mem fresh ln el h0 by blast
next
  fix w :: specs_Windows and wopts :: OptionsWCOW and err :: error
  let ?vm = "filepath_Join env (last (slice_elems h (LayerFolders w))) ''vm''"
  assume a: "GetSandboxTypeAndID_res env = Inr KubernetesContainerTypeNone
          \<and> Build_ge_RS5 env \<and> IsIsolated env
          \<and> SpecToUVMCreateOpts_res env = Inr (IsOptionsWCOW wopts)
          \<and> Windows s = Some w \<and> valid_slice h (LayerFolders w) \<and> 0 < sl_len (LayerFolders w)
          \<and> MkdirAll_res env ?vm = Some err"
  then obtain h0 where
    cp: "create_parent env h s (IsOptionsWCOW wopts) = (Inl err, h0, [MkdirAll ?vm])"
    using create_parent_WCOW_mkdir_fails [of s w h env err wopts] by blast
  have "r = Inl err \<and> tr = [MkdirAll ?vm]"
    using a cp run newHcsStandaloneTask_parent_fails by blast
  then show "r = Inl err" and "tr = [MkdirAll ?vm]"
    by simp_all
qed

theorem newHcsStandaloneTask_layer_folders_witness:
  "slice_elems
     (fst (snd (newHcsStandaloneTask (example_create_env (IsOptionsWCOW example_wopts) None None)
                  example_heap example_req example_spec)))
     example_layers
   = [''base'', ''scratch'']
   \<and> (\<exists>layers.
         CreateWCOW (example_wopts\<lparr>wopts_LayerFolders := layers\<rparr>)
           \<in> set (snd (snd (newHcsStandaloneTask
                              (example_create_env (IsOptionsWCOW example_wopts) None None)
                              example_heap example_req example_spec)))
         \<and> sl_ptr layers \<noteq> sl_ptr example_layers
         \<and> sl_len layers = 2
         \<and> slice_elems
              (fst (snd (newHcsStandaloneTask
                           (example_create_env (IsOptionsWCOW example_wopts) None None)
                           example_heap example_req example_spec)))
              layers
           = [''base'', ''scratch/vm''])
   \<and> fst (newHcsStandaloneTask
            (example_create_env (IsOptionsWCOW example_wopts) (Some (ErrExternal ''mkdir'')) None)
            example_heap example_req example_spec)
     = Inl (ErrExternal ''mkdir'')
   \<and> snd (snd (newHcsStandaloneTask
                 (example_create_env (IsOptionsWCOW example_wopts) (Some (ErrExternal ''mkdir'')) None)
                 example_heap example_req example_spec))
     = [MkdirAll ''scratch/vm'']"
proof -
  let ?env = "example_create_env (IsOptionsWCOW example_wopts) None None"
  let ?bad = "example_create_env (IsOptionsWCOW example_wopts) (Some (ErrExternal ''mkdir'')) None"
  obtain r h' tr where run: "newHcsStandaloneTask ?env example_heap example_req example_spec = (r, h', tr)"
    by (cases "newHcsStandaloneTask ?env example_heap example_req example_spec")
  obtain r2 h2 tr2 where run2: "newHcsStandaloneTask ?bad example_heap example_req example_spec = (r2, h2, tr2)"
    by (cases "newHcsStandaloneTask ?bad example_heap example_req example_spec")
  note th = newHcsStandaloneTask_layer_folders [OF run]
  note th2 = newHcsStandaloneTask_layer_folders [OF run2]
  have w: "Windows example_spec = Some example_windows"
    by (simp add: example_spec_def)
  have lf: "LayerFolders example_windows = example_layers"
    by (simp add: example_windows_def)
  have v: "valid_slice example_heap example_layers"
    by (simp add: valid_slice_def example_heap_def example_layers_def)
  have el: "slice_elems example_heap example_layers = [''base'', ''scratch'']"
    by (simp add: slice_elems_def example_heap_def example_layers_def)
  have n: "0 < sl_len example_layers" and n2: "sl_len example_layers = 2"
    by (simp_all add: example_layers_def)
  have e: "GetSandboxTypeAndID_res ?env = Inr KubernetesContainerTypeNone"
    "Build_ge_RS5 ?env" "IsIsolated ?env"
    "SpecToUVMCreateOpts_res ?env = Inr (IsOptionsWCOW example_wopts)"
    "MkdirAll_res ?env (filepath_Join ?env (last [''base'', ''scratch'']) ''vm'') = None"
    "filepath_Join ?env ''scratch'' ''vm'' = ''scratch/vm''"
    by (simp_all add: example_create_env_def)
  have f: "GetSandboxTypeAndID_res ?bad = Inr KubernetesContainerTypeNone"
    "Build_ge_RS5 ?bad" "IsIsolated ?bad"
    "SpecToUVMCreateOpts_res ?bad = Inr (IsOptionsWCOW example_wopts)"
    "MkdirAll_res ?bad (filepath_Join ?bad (last [''base'', ''scratch'']) ''vm'')
       = Some (ErrExternal ''mkdir'')"
    "filepath_Join ?bad ''scratch'' ''vm'' = ''scratch/vm''"
    by (simp_all add: example_create_env_def)
  have 1: "slice_elems h' example_layers = [''base'', ''scratch'']"
    using th [THEN conjunct2, THEN conjunct1, rule_format, where w = example_windows] w lf v el
    by simp
  have hyp: "GetSandboxTypeAndID_res ?env = Inr KubernetesContainerTypeNone
          \<and> Build_ge_RS5 ?env \<and> IsIsolated ?env
          \<and> SpecToUVMCreateOpts_res ?env = Inr (IsOptionsWCOW example_wopts)
          \<and> Windows example_spec = Some example_windows
          \<and> valid_slice example_heap (LayerFolders example_windows)
          \<and> 0 < sl_len (LayerFolders example_windows)
          \<and> MkdirAll_res ?env
               (filepath_Join ?env (last (slice_elems example_heap (LayerFolders example_windows))) ''vm'')
              = None"
    using w v n e by (simp add: lf el)
  have 2: "\<exists>layers. CreateWCOW (example_wopts\<lparr>wopts_LayerFolders := layers\<rparr>) \<in> set tr
          \<and> sl_ptr layers \<noteq> sl_ptr example_layers \<and> sl_len layers = 2
          \<and> slice_elems h' layers = [''base'', ''scratch/vm'']"
    using th [THEN conjunct2, THEN conjunct2, THEN conjunct1, rule_format,
        where w = example_windows and wopts = example_wopts, OF hyp]
    by (simp add: lf el n2 e)
  have hyp2: "GetSandboxTypeAndID_res ?bad = Inr KubernetesContainerTypeNone
          \<and> Build_ge_RS5 ?bad \<and> IsIsolated ?bad
          \<and> SpecToUVMCreateOpts_res ?bad = Inr (IsOptionsWCOW example_wopts)
          \<and> Windows example_spec = Some example_windows
          \<and> valid_slice example_heap (LayerFolders example_windows)
          \<and> 0 < sl_len (LayerFolders example_windows)
          \<and> MkdirAll_res ?bad
               (filepath_Join ?bad (last (slice_elems example_heap (LayerFolders example_windows))) ''vm'')
              = Some (ErrExternal ''mkdir'')"
    using w v n f by (simp add: lf el)
  have 3: "r2 = Inl (ErrExternal ''mkdir'') \<and> tr2 = [MkdirAll ''scratch/vm'']"
    using th2 [THEN conjunct2, THEN conjunct2, THEN conjunct2, rule_format,
        where w = example_windows and wopts = example_wopts and err = "ErrExternal ''mkdir''",
        OF hyp2]
    by (simp add: lf el f)
  from 1 2 3 show ?thesis
    unfolding run run2 by simp
qed

end
